theory Spec2Isabelle
  imports Complex_Main "HOL-Library.Word"
begin

unbundle bit_operations_syntax

section \<open>Render targets: \<^verbatim>\<open>src/dxvk/dxvk_framebuffer.cpp\<close>\<close>

text \<open>
  \<^verbatim>\<open>DxvkRenderTargets\<close> holds one depth attachment and the array
  \<^verbatim>\<open>std::array<DxvkAttachment, MaxNumRenderTargets> m_colorTargets\<close>. A view is a
  reference-counted pointer that may be null, hence an \<open>option\<close>. The header that
  declares \<^verbatim>\<open>MaxNumRenderTargets\<close> is not part of the sources at hand, so the
  bound is a parameter \<open>N\<close> of the loops; \<^verbatim>\<open>std::array::at\<close> throws
  \<^verbatim>\<open>std::out_of_range\<close> past the end, which is the \<open>Inl\<close> branch.
  Of \<^verbatim>\<open>DxvkImageView\<close> only the two queries used here are kept:
  \<^verbatim>\<open>mipLevelExtent(level)\<close> and \<^verbatim>\<open>info().numLayers\<close>.
\<close>

record VkExtent3D =
  width :: "32 word"
  height :: "32 word"
  depth :: "32 word"

record DxvkImageView =
  mipLevelExtent :: "32 word \<Rightarrow> VkExtent3D"
  numLayers :: "32 word"

record DxvkAttachment =
  view :: "DxvkImageView option"
  layout :: nat

record DxvkRenderTargets =
  m_depthTarget :: DxvkAttachment
  m_colorTargets :: "DxvkAttachment list"

datatype DxvkFramebufferSize = DxvkFramebufferSize "32 word" "32 word" "32 word"

datatype error = OutOfRange

definition at_array :: "'a list \<Rightarrow> nat \<Rightarrow> error + 'a" where
  "at_array xs i = (if i < length xs then Inr (xs ! i) else Inl OutOfRange)"

definition renderTargetSize :: "DxvkImageView \<Rightarrow> DxvkFramebufferSize" where
  "renderTargetSize renderTarget =
     (let extent = mipLevelExtent renderTarget 0;
          layers = numLayers renderTarget
      in DxvkFramebufferSize (width extent) (height extent) layers)"

function getImageSize_loop ::
  "nat \<Rightarrow> DxvkRenderTargets \<Rightarrow> nat \<Rightarrow> error + DxvkFramebufferSize" where
  "getImageSize_loop N rt i =
     (if i < N then
        (case at_array (m_colorTargets rt) i of
           Inl e \<Rightarrow> Inl e
         | Inr a \<Rightarrow>
             (case view a of
                Some v \<Rightarrow> Inr (renderTargetSize v)
              | None \<Rightarrow> getImageSize_loop N rt (i + 1)))
      else Inr (DxvkFramebufferSize 0 0 0))"
  by pat_completeness auto
termination
  by (relation "measure (\<lambda>(N, rt, i). N - i)") auto

definition getImageSize :: "nat \<Rightarrow> DxvkRenderTargets \<Rightarrow> error + DxvkFramebufferSize" where
  "getImageSize N rt =
     (case view (m_depthTarget rt) of
        Some v \<Rightarrow> Inr (renderTargetSize v)
      | None \<Rightarrow> getImageSize_loop N rt 0)"

function hasAttachments_loop ::
  "nat \<Rightarrow> DxvkRenderTargets \<Rightarrow> nat \<Rightarrow> bool \<Rightarrow> error + bool" where
  "hasAttachments_loop N rt i result =
     (if i < N \<and> \<not> result then
        (case at_array (m_colorTargets rt) i of
           Inl e \<Rightarrow> Inl e
         | Inr a \<Rightarrow> hasAttachments_loop N rt (i + 1) (result \<or> view a \<noteq> None))
      else Inr result)"
  by pat_completeness auto
termination
  by (relation "measure (\<lambda>(N, rt, i, result). N - i)") auto

definition hasAttachments :: "nat \<Rightarrow> DxvkRenderTargets \<Rightarrow> error + bool" where
  "hasAttachments N rt = hasAttachments_loop N rt 0 (view (m_depthTarget rt) \<noteq> None)"

section \<open>ReSTIR GI temporal reuse: \<^verbatim>\<open>src/dxvk/shaders/rtx/pass/rtxdi/restir_gi_temporal_reuse.comp.slang\<close>\<close>

text \<open>
  The compute shader \<^verbatim>\<open>main\<close> runs once per pixel. Its model follows the
  source block by block. Conventions:
  \<^item> \<^verbatim>\<open>float\<close> and \<^verbatim>\<open>float16_t\<close> values are real numbers: rounding,
    overflow and the propagation of infinities and NaN through arithmetic are not
    modelled. A quotient by zero, an infinity or NaN in the program, is \<open>0\<close> here as in
    HOL; the instances evaluated below do not divide by zero. Radiance is the exception:
    the texel that the source sanitises and the radiance that the firefly filter returns
    may hold components that are not finite (\<open>NonFinite\<close>: NaN or an infinity).
  \<^item> Vector intrinsics of the shading language (\<^verbatim>\<open>length\<close>, \<^verbatim>\<open>normalize\<close>,
    \<^verbatim>\<open>dot\<close>, \<^verbatim>\<open>lerp\<close>, \<^verbatim>\<open>reflect\<close>, \<^verbatim>\<open>saturate\<close>, \<^verbatim>\<open>mul\<close>,
    \<^verbatim>\<open>any\<close>) are defined by their language meaning.
  \<^item> Helper functions, methods and macros that the shader takes from included headers
    are not among the sources at hand; they are the fields of the record \<open>env\<close>, and
    every definition below takes that record as its first argument.
  \<^item> The dispatch thread id is a pair of naturals (it is never negative).
\<close>

subsection \<open>Vectors\<close>

type_synonym vec2 = "real \<times> real"
type_synonym vec3 = "real \<times> real \<times> real"
type_synonym vec4 = "real \<times> real \<times> real \<times> real"
type_synonym mat3 = "vec3 \<times> vec3 \<times> vec3"
type_synonym mat4 = "vec4 \<times> vec4 \<times> vec4 \<times> vec4"

fun sub2 :: "vec2 \<Rightarrow> vec2 \<Rightarrow> vec2" where
  "sub2 (a, b) (c, d) = (a - c, b - d)"

fun mul2 :: "vec2 \<Rightarrow> vec2 \<Rightarrow> vec2" where
  "mul2 (a, b) (c, d) = (a * c, b * d)"

fun length2 :: "vec2 \<Rightarrow> real" where
  "length2 (a, b) = sqrt (a * a + b * b)"

fun lerp :: "real \<Rightarrow> real \<Rightarrow> real \<Rightarrow> real" where
  "lerp x y s = x + s * (y - x)"

fun lerp2 :: "vec2 \<Rightarrow> vec2 \<Rightarrow> real \<Rightarrow> vec2" where
  "lerp2 (a, b) (c, d) s = (lerp a c s, lerp b d s)"

fun add3 :: "vec3 \<Rightarrow> vec3 \<Rightarrow> vec3" where
  "add3 (a, b, c) (d, e, f) = (a + d, b + e, c + f)"

fun sub3 :: "vec3 \<Rightarrow> vec3 \<Rightarrow> vec3" where
  "sub3 (a, b, c) (d, e, f) = (a - d, b - e, c - f)"

fun scale3 :: "vec3 \<Rightarrow> real \<Rightarrow> vec3" where
  "scale3 (a, b, c) k = (a * k, b * k, c * k)"

fun neg3 :: "vec3 \<Rightarrow> vec3" where
  "neg3 (a, b, c) = (- a, - b, - c)"

fun dot3 :: "vec3 \<Rightarrow> vec3 \<Rightarrow> real" where
  "dot3 (a, b, c) (d, e, f) = a * d + b * e + c * f"

fun length3 :: "vec3 \<Rightarrow> real" where
  "length3 (a, b, c) = sqrt (a * a + b * b + c * c)"

definition normalize3 :: "vec3 \<Rightarrow> vec3" where
  "normalize3 v = scale3 v (1 / length3 v)"

fun any_nonzero3 :: "vec3 \<Rightarrow> bool" where
  "any_nonzero3 (a, b, c) = (a \<noteq> 0 \<or> b \<noteq> 0 \<or> c \<noteq> 0)"

fun lerp3 :: "vec3 \<Rightarrow> vec3 \<Rightarrow> real \<Rightarrow> vec3" where
  "lerp3 (a, b, c) (d, e, f) s = (lerp a d s, lerp b e s, lerp c f s)"

definition reflect :: "vec3 \<Rightarrow> vec3 \<Rightarrow> vec3" where
  "reflect i n = sub3 i (scale3 n (2 * dot3 i n))"

definition saturate :: "real \<Rightarrow> real" where
  "saturate x = min 1 (max 0 x)"

fun dot4 :: "vec4 \<Rightarrow> vec4 \<Rightarrow> real" where
  "dot4 (a, b, c, d) (e, f, g, h) = a * e + b * f + c * g + d * h"

fun mul44 :: "mat4 \<Rightarrow> vec4 \<Rightarrow> vec4" where
  "mul44 (r0, r1, r2, r3) v = (dot4 r0 v, dot4 r1 v, dot4 r2 v, dot4 r3 v)"

fun xyz :: "vec4 \<Rightarrow> vec3" where
  "xyz (a, b, c, d) = (a, b, c)"

fun mat3_of :: "mat4 \<Rightarrow> mat3" where
  "mat3_of (r0, r1, r2, r3) = (xyz r0, xyz r1, xyz r2)"

fun mul33 :: "mat3 \<Rightarrow> vec3 \<Rightarrow> vec3" where
  "mul33 (r0, r1, r2) v = (dot3 r0 v, dot3 r1 v, dot3 r2 v)"

fun vec4_of :: "vec3 \<Rightarrow> real \<Rightarrow> vec4" where
  "vec4_of (a, b, c) d = (a, b, c, d)"

text \<open>\<^verbatim>\<open>v.xyz /= v.w; ... v.xy\<close>: the perspective division, then the first two components.\<close>

fun xy_over_w :: "vec4 \<Rightarrow> vec2" where
  "xy_over_w (a, b, c, d) = (a / d, b / d)"

subsection \<open>Data read and written by the shader\<close>

text \<open>
  The structures are declared in headers that are not at hand; each record keeps the
  members that \<^verbatim>\<open>main\<close> reads or writes, under the member's name. A field whose
  name is already taken by another record carries a prefix (\<open>msi_\<close>, \<open>hit_\<close>,
  \<open>tp_\<close>). The random sampler state is opaque to \<^verbatim>\<open>main\<close>; a natural number
  stands for it.
\<close>

type_synonym pixel = "nat \<times> nat"
type_synonym RAB_RandomSamplerState = nat

datatype float_value = Finite real | NonFinite

type_synonym fvec3 = "float_value \<times> float_value \<times> float_value"

fun finite3 :: "vec3 \<Rightarrow> fvec3" where
  "finite3 (a, b, c) = (Finite a, Finite b, Finite c)"

fun all_finite :: "fvec3 \<Rightarrow> bool" where
  "all_finite (Finite a, Finite b, Finite c) = True"
| "all_finite v = False"

record MinimalSurfaceInteraction =
  msi_position :: vec3
  triangleNormal :: vec3

record MinimalRayInteraction =
  viewDirection :: vec3

record OpaqueSurfaceMaterialInteraction =
  isotropicRoughness :: real
  shadingNormal :: vec3
  albedo :: vec3
  baseReflectivity :: vec3

record RAB_Surface =
  minimalSurfaceInteraction :: MinimalSurfaceInteraction
  minimalRayInteraction :: MinimalRayInteraction
  opaqueSurfaceMaterialInteraction :: OpaqueSurfaceMaterialInteraction
  virtualWorldPosition :: vec3
  objectMask :: "8 word"
  portalSpace :: nat
  isViewModel :: bool

record GeometryFlags =
  primarySelectedIntegrationSurface :: bool

text \<open>The three \<^verbatim>\<open>out\<close> parameters of \<^verbatim>\<open>ReSTIRGI_LoadHitGeometry\<close>.\<close>

record HitGeometry =
  hit_position :: vec3
  hit_normal :: vec3
  hit_portalID :: "8 word"

text \<open>A texel of \<^verbatim>\<open>RestirGIRadiance\<close>: \<^verbatim>\<open>.rgb\<close> as stored, \<^verbatim>\<open>.w\<close> finite.\<close>

record RadianceAndDistance =
  rgb :: fvec3
  w :: real

record ReSTIRGI_Reservoir =
  position :: vec3
  normal :: vec3
  radiance :: fvec3
  avgWeight :: real
  M :: nat
  flagsAndVirtualFraction :: "32 word"

record Camera =
  resolution :: "nat \<times> nat"
  prevWorldToProjection :: mat4

record RayPortalHitInfo =
  encodedPortalToOpposingPortalDirection :: "32 word list"

record VisibilityResult =
  hasOpaqueHit :: bool
  hitDistance :: real

text \<open>The constant buffer \<^verbatim>\<open>cb\<close>.\<close>

record cb =
  camera :: Camera
  fireflyFilteringLuminanceThreshold :: real
  rayPortalHitInfos :: "nat \<Rightarrow> RayPortalHitInfo"
  enableReSTIRGIVirtualSample :: "32 word"
  frameIdx :: "32 word"
  enableReSTIRGIReflectionReprojection :: "32 word"
  enableReSTIRGIDiscardEnlargedPixels :: bool
  restirGIReflectionMinParallax :: real
  temporalHistoryLength :: nat
  enableReSTIRGITemporalJacobian :: bool
  enableReSTIRGITemporalBiasCorrection :: bool
  uniformRandomNumber :: "32 word"
  enableReSTIRGIPermutationSampling :: bool
  permutationSamplingSize :: nat
  teleportationPortalIndex :: nat
  reSTIRGIBiasCorrectionMode :: "32 word"
  numActiveRayPortals :: nat
  enableReSTIRGITemporalReuse :: bool
  debugView :: "32 word"

record ReSTIRGI_TemporalResamplingParameters =
  tp_temporalHistoryLength :: nat
  tp_enableJacobian :: bool
  tp_enableBiasCorrection :: bool
  tp_prevPixelCenter :: vec2
  tp_prevBackupPixelCenter :: vec2
  tp_resolution :: "nat \<times> nat"
  tp_expectedPrevHitDistance :: real
  tp_normalThreshold :: real
  tp_depthThreshold :: vec2
  tp_virtualMotionVector :: vec3
  tp_uniformRandomNumber :: "32 word"
  tp_enablePermutationSampling :: bool
  tp_permutationSamplingSize :: nat
  tp_teleportationPortalIndex :: nat
  tp_discardEnlargedPixels :: bool
  tp_sourceBufferIndex :: nat

text \<open>The per-pixel input resources, each read at \<^verbatim>\<open>thread_id\<close>.\<close>

record buffers =
  RAB_GetGBufferSurface :: "pixel \<Rightarrow> RAB_Surface"
  geometryFlagsReadFromGBuffer :: "pixel \<Rightarrow> GeometryFlags"
  RestirGIRadiance :: "pixel \<Rightarrow> RadianceAndDistance"
  ReSTIRGI_LoadHitGeometry :: "pixel \<Rightarrow> HitGeometry"
  PrimaryVirtualMotionVector :: "pixel \<Rightarrow> vec3"

text \<open>
  What an invocation can change: the reservoir pages (\<^verbatim>\<open>RAB_StoreGIReservoir\<close>
  records the reservoir it is handed under page and pixel) and the debug view. The
  rays an invocation traces are logged as well, so that whether a stage ran can be
  stated.
\<close>

datatype debug_write = StoreInDebugView fvec3 | AccumulateInDebugViewAnd bool

datatype ray_query = VisibilityRay vec3 | GISampleVisibility ReSTIRGI_Reservoir

record gpu_state =
  reservoirs :: "nat \<times> pixel \<Rightarrow> ReSTIRGI_Reservoir option"
  debugViewOutput :: "pixel \<Rightarrow> debug_write option"
  rays :: "ray_query list"

text \<open>
  The helpers and macros taken from the included headers. The reservoir's methods
  \<^verbatim>\<open>setPortalID\<close>, \<^verbatim>\<open>setVirtualFraction\<close>, \<^verbatim>\<open>clearFlag\<close> and
  \<^verbatim>\<open>setFlag\<close> are taken to rewrite the packed member
  \<^verbatim>\<open>flagsAndVirtualFraction\<close> and nothing else of the reservoir. \<^verbatim>\<open>sanitize\<close>
  returns a finite vector, and \<^verbatim>\<open>fireflyFiltering\<close> is handed one.
  \<^verbatim>\<open>traceVisibilityRay\<close> is given the arguments that vary between invocations; the
  others are constants of the call site. \<^verbatim>\<open>ReSTIRGI_TemporalResampling\<close> reads the
  reservoir pages and returns the reservoir with its two \<^verbatim>\<open>out\<close> flags,
  \<^verbatim>\<open>isGBufferSimilar\<close> and \<^verbatim>\<open>isInitialSample\<close>.
\<close>

record env =
  RAB_IsSurfaceValid :: "RAB_Surface \<Rightarrow> bool"
  sanitize :: "fvec3 \<Rightarrow> vec3 \<Rightarrow> vec3"
  fireflyFiltering :: "vec3 \<Rightarrow> real \<Rightarrow> fvec3"
  setPortalID :: "8 word \<Rightarrow> 32 word \<Rightarrow> 32 word"
  RESTIR_GI_INVALID_INDIRECT_LIGHT_PORTAL_ID :: "8 word"
  getOpposingRayPortalIndex :: "8 word \<Rightarrow> nat"
  rayPortalHitInfoIsActive :: "RayPortalHitInfo \<Rightarrow> bool"
  unpack :: "32 word list \<Rightarrow> mat4"
  setVirtualFraction :: "real \<Rightarrow> 32 word \<Rightarrow> 32 word"
  RAB_RESTIR_GI_DELTA_ROUGHNESS :: real
  ReSTIRGI_GetInitSamplePage :: nat
  ReSTIRGI_GetTemporalInputPage :: nat
  ReSTIRGI_GetTemporalOutputPage :: nat
  RAB_InitRandomSampler :: "pixel \<Rightarrow> 32 word \<Rightarrow> nat \<Rightarrow> RAB_RandomSamplerState"
  RAB_GetNextRandom :: "RAB_RandomSamplerState \<Rightarrow> real \<times> RAB_RandomSamplerState"
  cameraNDCToScreenUV :: "Camera \<Rightarrow> vec2 \<Rightarrow> vec2"
  cameraGetPreviousWorldPosition :: "Camera \<Rightarrow> vec4"
  calcBt709Luminance :: "vec3 \<Rightarrow> real"
  evalOpaqueSchlickFresnel :: "vec3 \<Rightarrow> real \<Rightarrow> vec3"
  OBJECT_MASK_OPAQUE :: "8 word"
  OBJECT_MASK_ALL_DYNAMIC :: "8 word"
  traceVisibilityRay ::
    "MinimalSurfaceInteraction \<Rightarrow> vec3 \<Rightarrow> 8 word \<Rightarrow> nat \<Rightarrow> bool \<Rightarrow> VisibilityResult"
  ReSTIRGI_TemporalResampling ::
    "(nat \<times> pixel \<Rightarrow> ReSTIRGI_Reservoir option) \<Rightarrow> ReSTIRGI_Reservoir \<Rightarrow> pixel \<Rightarrow>
     RAB_Surface \<Rightarrow> RAB_RandomSamplerState \<Rightarrow> ReSTIRGI_TemporalResamplingParameters \<Rightarrow>
     ReSTIRGI_Reservoir \<times> bool \<times> bool"
  RTXDI_BIAS_CORRECTION_PAIRWISE_RAY_TRACED :: "32 word"
  RAB_TraceGISampleVisibility ::
    "RAB_Surface \<Rightarrow> RAB_Surface \<Rightarrow> ReSTIRGI_Reservoir \<Rightarrow> nat \<Rightarrow> bool"
  RESTIR_GI_FLAG_OCCLUDED_SAMPLE :: "32 word"
  clearFlag :: "32 word \<Rightarrow> 32 word \<Rightarrow> 32 word"
  setFlag :: "32 word \<Rightarrow> 32 word \<Rightarrow> 32 word"
  DEBUG_VIEW_RESTIR_GI_INITIAL_SAMPLE :: "32 word"
  DEBUG_VIEW_RESTIR_GI_TEMPORAL_REUSE :: "32 word"
  DEBUG_VIEW_NAN :: "32 word"
  isValidValue :: "fvec3 \<Rightarrow> bool"

subsection \<open>Stores\<close>

definition RAB_StoreGIReservoir ::
  "ReSTIRGI_Reservoir \<Rightarrow> pixel \<Rightarrow> nat \<Rightarrow> gpu_state \<Rightarrow> gpu_state" where
  "RAB_StoreGIReservoir reservoir px page s =
     s\<lparr>reservoirs := (reservoirs s)((page, px) \<mapsto> reservoir)\<rparr>"

definition storeInDebugView :: "pixel \<Rightarrow> fvec3 \<Rightarrow> gpu_state \<Rightarrow> gpu_state" where
  "storeInDebugView px v s =
     s\<lparr>debugViewOutput := (debugViewOutput s)(px \<mapsto> StoreInDebugView v)\<rparr>"

definition accumulateInDebugViewAnd :: "pixel \<Rightarrow> bool \<Rightarrow> gpu_state \<Rightarrow> gpu_state" where
  "accumulateInDebugViewAnd px b s =
     s\<lparr>debugViewOutput := (debugViewOutput s)(px \<mapsto> AccumulateInDebugViewAnd b)\<rparr>"

subsection \<open>The candidate: lines 61 to 114\<close>

text \<open>
  Lines 63 to 83. The source leaves \<^verbatim>\<open>position\<close> and \<^verbatim>\<open>normal\<close> unset until
  \<^verbatim>\<open>ReSTIRGI_LoadHitGeometry\<close> writes them on line 86; the record holds the loaded
  values from the start. The member \<^verbatim>\<open>radiance\<close> is kept in a local until the
  firefly filter has run: before the filter it is zero or sanitised, hence finite. The
  result is the reservoir and \<^verbatim>\<open>indirectPathLength\<close>.
\<close>

definition loadRadiance ::
  "env \<Rightarrow> cb \<Rightarrow> GeometryFlags \<Rightarrow> RadianceAndDistance \<Rightarrow> HitGeometry \<Rightarrow>
   ReSTIRGI_Reservoir \<times> real" where
  "loadRadiance E c geometryFlags radianceAndDistance hit =
     (let (radiance0, indirectPathLength) =
            (if primarySelectedIntegrationSurface geometryFlags
             then (sanitize E (rgb radianceAndDistance) (0, 0, 0), w radianceAndDistance)
             else ((0, 0, 0), 0));
          fireflyFilteringFactor = 30
      in (\<lparr>position = hit_position hit, normal = hit_normal hit,
           radiance =
             fireflyFiltering E radiance0
               (fireflyFilteringLuminanceThreshold c * fireflyFilteringFactor),
           avgWeight = 1, M = 1, flagsAndVirtualFraction = 0\<rparr>,
          indirectPathLength))"

text \<open>Lines 89 to 99: the hit point is carried across an active portal.\<close>

definition transformAcrossPortal ::
  "env \<Rightarrow> cb \<Rightarrow> 8 word \<Rightarrow> ReSTIRGI_Reservoir \<Rightarrow> ReSTIRGI_Reservoir" where
  "transformAcrossPortal E c portalID initialSample =
     (if portalID \<noteq> RESTIR_GI_INVALID_INDIRECT_LIGHT_PORTAL_ID E then
        (let rayPortalHitInfo = rayPortalHitInfos c (getOpposingRayPortalIndex E portalID)
         in if rayPortalHitInfoIsActive E rayPortalHitInfo then
              (let teleportMatrix =
                     unpack E (encodedPortalToOpposingPortalDirection rayPortalHitInfo)
               in initialSample
                    \<lparr>position := xyz (mul44 teleportMatrix (vec4_of (position initialSample) 1)),
                     normal := mul33 (mat3_of teleportMatrix) (normal initialSample)\<rparr>)
            else initialSample)
      else initialSample)"

text \<open>Lines 101 to 114: position and normal of a virtual sample.\<close>

definition virtualSample ::
  "env \<Rightarrow> cb \<Rightarrow> RAB_Surface \<Rightarrow> real \<Rightarrow> ReSTIRGI_Reservoir \<Rightarrow> ReSTIRGI_Reservoir" where
  "virtualSample E c surface indirectPathLength initialSample0 =
     (let initialSample = initialSample0
            \<lparr>flagsAndVirtualFraction :=
               setVirtualFraction E 0 (flagsAndVirtualFraction initialSample0)\<rparr>
      in if 0 < enableReSTIRGIVirtualSample c
            \<and> isotropicRoughness (opaqueSurfaceMaterialInteraction surface)
                > RAB_RESTIR_GI_DELTA_ROUGHNESS E
         then
           (let direction =
                  sub3 (position initialSample) (msi_position (minimalSurfaceInteraction surface))
            in if any_nonzero3 direction \<and> indirectPathLength > length3 direction * 1.01 then
                 initialSample
                   \<lparr>flagsAndVirtualFraction :=
                      setVirtualFraction E ((indirectPathLength - length3 direction) * 1.2)
                        (flagsAndVirtualFraction initialSample),
                    position :=
                      add3 (msi_position (minimalSurfaceInteraction surface))
                        (scale3 (normalize3 direction) indirectPathLength),
                    normal := neg3 (normalize3 direction)\<rparr>
               else initialSample)
         else initialSample)"

text \<open>Lines 61 to 114 together: the complete initial sample.\<close>

definition candidate ::
  "env \<Rightarrow> cb \<Rightarrow> buffers \<Rightarrow> pixel \<Rightarrow> RAB_Surface \<Rightarrow> ReSTIRGI_Reservoir" where
  "candidate E c B thread_id surface =
     (let geometryFlags = geometryFlagsReadFromGBuffer B thread_id;
          hit = ReSTIRGI_LoadHitGeometry B thread_id;
          (initialSample, indirectPathLength) =
            loadRadiance E c geometryFlags (RestirGIRadiance B thread_id) hit;
          portalID = hit_portalID hit;
          initialSample = initialSample
            \<lparr>flagsAndVirtualFraction :=
               setPortalID E portalID (flagsAndVirtualFraction initialSample)\<rparr>;
          initialSample = transformAcrossPortal E c portalID initialSample
      in virtualSample E c surface indirectPathLength initialSample)"

subsection \<open>Reprojection: lines 119 to 194\<close>

definition screenPosition :: "env \<Rightarrow> Camera \<Rightarrow> vec3 \<Rightarrow> vec2" where
  "screenPosition E cam worldPosition =
     (let ndc = mul44 (prevWorldToProjection cam) (vec4_of worldPosition 1)
      in mul2 (cameraNDCToScreenUV E cam (xy_over_w ndc))
           (real (fst (resolution cam)), real (snd (resolution cam))))"

text \<open>Lines 124 to 129: \<^verbatim>\<open>prevPixelCenter\<close> from the virtual motion vector.\<close>

definition motionPrevPixelCenter :: "env \<Rightarrow> Camera \<Rightarrow> RAB_Surface \<Rightarrow> vec3 \<Rightarrow> vec2" where
  "motionPrevPixelCenter E cam surface virtualMotionVector =
     (let prevVirtualWorldPosition = add3 (virtualWorldPosition surface) virtualMotionVector
      in screenPosition E cam prevVirtualWorldPosition)"

definition expectedPrevHitDistance_of ::
  "env \<Rightarrow> Camera \<Rightarrow> RAB_Surface \<Rightarrow> vec3 \<Rightarrow> real" where
  "expectedPrevHitDistance_of E cam surface virtualMotionVector =
     (let prevVirtualWorldPosition = add3 (virtualWorldPosition surface) virtualMotionVector
      in length3 (sub3 prevVirtualWorldPosition (xyz (cameraGetPreviousWorldPosition E cam))))"

text \<open>Lines 131 to 133: the similarity thresholds.\<close>

definition depthThreshold_of :: "RAB_Surface \<Rightarrow> vec2" where
  "depthThreshold_of surface =
     (let viewDirectionDotTriangleNormal =
            \<bar>dot3 (viewDirection (minimalRayInteraction surface))
                 (triangleNormal (minimalSurfaceInteraction surface))\<bar>;
          t = 0.01 / max viewDirectionDotTriangleNormal 0.01
      in (t, t))"

definition normalThreshold_of :: "RAB_Surface \<Rightarrow> real" where
  "normalThreshold_of surface =
     lerp 0.995 0.5 (isotropicRoughness (opaqueSurfaceMaterialInteraction surface))"

text \<open>Lines 135 to 146: the weight of the reflection sample.\<close>

definition reflectionWeight_of :: "env \<Rightarrow> cb \<Rightarrow> RAB_Surface \<Rightarrow> real" where
  "reflectionWeight_of E c surface =
     (if 0 < enableReSTIRGIReflectionReprojection c then
        (let roughWeight = 1 - isotropicRoughness (opaqueSurfaceMaterialInteraction surface);
             normalDotOutputDirection =
               dot3 (shadingNormal (opaqueSurfaceMaterialInteraction surface))
                    (viewDirection (minimalRayInteraction surface));
             albedoLuminance =
               calcBt709Luminance E (albedo (opaqueSurfaceMaterialInteraction surface));
             fresnel =
               evalOpaqueSchlickFresnel E
                 (baseReflectivity (opaqueSurfaceMaterialInteraction surface))
                 normalDotOutputDirection;
             fresnelLuminance = calcBt709Luminance E fresnel;
             specularWeight = fresnelLuminance / (fresnelLuminance + albedoLuminance)
         in specularWeight * roughWeight)
      else 0)"

text \<open>Lines 155 to 163: the end point of the reflection ray.\<close>

definition reflectionDstPosition :: "RAB_Surface \<Rightarrow> vec3" where
  "reflectionDstPosition surface =
     (let worldPos = msi_position (minimalSurfaceInteraction surface);
          viewVector = neg3 (viewDirection (minimalRayInteraction surface));
          reflectionVector =
            reflect viewVector (shadingNormal (opaqueSurfaceMaterialInteraction surface));
          infiniteHitT = 100000
      in add3 worldPos (scale3 reflectionVector infiniteHitT))"

text \<open>Lines 155 to 173: the reflection ray is traced and its hit reprojected.\<close>

definition prevReflectionCenter_of :: "env \<Rightarrow> Camera \<Rightarrow> RAB_Surface \<Rightarrow> vec2" where
  "prevReflectionCenter_of E cam surface =
     (let worldPos = msi_position (minimalSurfaceInteraction surface);
          viewVector = neg3 (viewDirection (minimalRayInteraction surface));
          rayMask = OBJECT_MASK_OPAQUE E OR (objectMask surface AND OBJECT_MASK_ALL_DYNAMIC E);
          infiniteHitT = 100000;
          dstPosition = reflectionDstPosition surface;
          visibility =
            traceVisibilityRay E (minimalSurfaceInteraction surface) dstPosition rayMask
              (portalSpace surface) (isViewModel surface);
          reflectionHitT =
            (if hasOpaqueHit visibility then hitDistance visibility else infiniteHitT);
          reflectPosition = add3 worldPos (scale3 viewVector reflectionHitT)
      in screenPosition E cam reflectPosition)"

text \<open>
  What lines 149 to 194 leave in the local variables that the rest of \<^verbatim>\<open>main\<close>
  reads (each field carries the variable's name after \<open>r_\<close>).
\<close>

record Reprojection =
  r_prevPixelCenter :: vec2
  r_prevBackupPixelCenter :: vec2
  r_depthThreshold :: vec2
  r_discardEnlargedPixels :: bool
  r_reflectionReprojectionWeight :: real
  r_rng :: RAB_RandomSamplerState

definition reflectionReprojection ::
  "env \<Rightarrow> cb \<Rightarrow> RAB_Surface \<Rightarrow> pixel \<Rightarrow> vec2 \<Rightarrow> vec2 \<Rightarrow> real \<Rightarrow>
   RAB_RandomSamplerState \<Rightarrow> gpu_state \<Rightarrow> Reprojection \<times> gpu_state" where
  "reflectionReprojection E c surface thread_id prevPixelCenter depthThreshold
       reflectionWeight rng s =
     (let prevBackupPixelCenter = (- 1, - 1);
          currentPixelCenter = (real (fst thread_id) + 0.5, real (snd thread_id) + 0.5);
          discardEnlargedPixels = enableReSTIRGIDiscardEnlargedPixels c;
          reflectionReprojectionWeight = 0
      in if 0 < enableReSTIRGIReflectionReprojection c \<and> reflectionWeight > 0.05
            \<and> length2 (sub2 prevPixelCenter currentPixelCenter) > 1
         then
           (let prevReflectionCenter = prevReflectionCenter_of E (camera c) surface;
                s = s\<lparr>rays := rays s @ [VisibilityRay (reflectionDstPosition surface)]\<rparr>;
                interpolateDistance = restirGIReflectionMinParallax c;
                reprojectionDistance = length2 (sub2 prevReflectionCenter prevPixelCenter);
                reflectionReprojectionWeight = reflectionWeight;
                prevBackupPixelCenter = prevPixelCenter
            in if reprojectionDistance < interpolateDistance then
                 (let distanceWeight = saturate (reprojectionDistance / interpolateDistance);
                      reflectionReprojectionWeight = reflectionReprojectionWeight * distanceWeight
                  in (\<lparr>r_prevPixelCenter =
                          lerp2 prevPixelCenter prevReflectionCenter reflectionReprojectionWeight,
                        r_prevBackupPixelCenter = prevBackupPixelCenter,
                        r_depthThreshold = depthThreshold,
                        r_discardEnlargedPixels = discardEnlargedPixels,
                        r_reflectionReprojectionWeight = reflectionReprojectionWeight,
                        r_rng = rng\<rparr>, s))
               else
                 (let (u, rng) = RAB_GetNextRandom E rng
                  in if u < reflectionReprojectionWeight then
                       (\<lparr>r_prevPixelCenter = prevReflectionCenter,
                         r_prevBackupPixelCenter = prevBackupPixelCenter,
                         r_depthThreshold = (0.25, snd depthThreshold),
                         r_discardEnlargedPixels = False,
                         r_reflectionReprojectionWeight = reflectionReprojectionWeight,
                         r_rng = rng\<rparr>, s)
                     else
                       (\<lparr>r_prevPixelCenter = prevPixelCenter,
                         r_prevBackupPixelCenter = prevBackupPixelCenter,
                         r_depthThreshold = depthThreshold,
                         r_discardEnlargedPixels = discardEnlargedPixels,
                         r_reflectionReprojectionWeight = reflectionReprojectionWeight,
                         r_rng = rng\<rparr>, s)))
         else
           (\<lparr>r_prevPixelCenter = prevPixelCenter,
             r_prevBackupPixelCenter = prevBackupPixelCenter,
             r_depthThreshold = depthThreshold,
             r_discardEnlargedPixels = discardEnlargedPixels,
             r_reflectionReprojectionWeight = reflectionReprojectionWeight,
             r_rng = rng\<rparr>, s))"

subsection \<open>Resampling, visibility and output: lines 196 to 247\<close>

definition tparams_of ::
  "env \<Rightarrow> cb \<Rightarrow> Reprojection \<Rightarrow> real \<Rightarrow> real \<Rightarrow> vec3 \<Rightarrow>
   ReSTIRGI_TemporalResamplingParameters" where
  "tparams_of E c r expectedPrevHitDistance normalThreshold virtualMotionVector =
     \<lparr>tp_temporalHistoryLength = temporalHistoryLength c,
      tp_enableJacobian = enableReSTIRGITemporalJacobian c,
      tp_enableBiasCorrection = enableReSTIRGITemporalBiasCorrection c,
      tp_prevPixelCenter = r_prevPixelCenter r,
      tp_prevBackupPixelCenter = r_prevBackupPixelCenter r,
      tp_resolution = resolution (camera c),
      tp_expectedPrevHitDistance = expectedPrevHitDistance,
      tp_normalThreshold = normalThreshold,
      tp_depthThreshold = r_depthThreshold r,
      tp_virtualMotionVector = virtualMotionVector,
      tp_uniformRandomNumber = uniformRandomNumber c,
      tp_enablePermutationSampling = enableReSTIRGIPermutationSampling c,
      tp_permutationSamplingSize = permutationSamplingSize c,
      tp_teleportationPortalIndex = teleportationPortalIndex c,
      tp_discardEnlargedPixels = r_discardEnlargedPixels r,
      tp_sourceBufferIndex = ReSTIRGI_GetTemporalInputPage E\<rparr>"

text \<open>Lines 218 to 225: last frame's visibility is updated.\<close>

definition visibilityRevalidation ::
  "env \<Rightarrow> cb \<Rightarrow> RAB_Surface \<Rightarrow> ReSTIRGI_Reservoir \<Rightarrow> bool \<Rightarrow> bool \<Rightarrow> gpu_state \<Rightarrow>
   ReSTIRGI_Reservoir \<times> gpu_state" where
  "visibilityRevalidation E c surface resultReservoir isGBufferSimilar isInitialSample s =
     (if reSTIRGIBiasCorrectionMode c = RTXDI_BIAS_CORRECTION_PAIRWISE_RAY_TRACED E
         \<and> isGBufferSimilar \<and> \<not> isInitialSample
      then
        (let isVisible =
               RAB_TraceGISampleVisibility E surface surface resultReservoir
                 (numActiveRayPortals c);
             s = s\<lparr>rays := rays s @ [GISampleVisibility resultReservoir]\<rparr>;
             resultReservoir = resultReservoir
               \<lparr>flagsAndVirtualFraction :=
                  clearFlag E (RESTIR_GI_FLAG_OCCLUDED_SAMPLE E)
                    (flagsAndVirtualFraction resultReservoir)\<rparr>;
             resultReservoir = resultReservoir
               \<lparr>flagsAndVirtualFraction :=
                  setFlag E (if isVisible then 0 else RESTIR_GI_FLAG_OCCLUDED_SAMPLE E)
                    (flagsAndVirtualFraction resultReservoir)\<rparr>
         in (resultReservoir, s))
      else (resultReservoir, s))"

text \<open>Lines 233 to 247: the debug views.\<close>

definition writeDebugView ::
  "env \<Rightarrow> cb \<Rightarrow> pixel \<Rightarrow> ReSTIRGI_Reservoir \<Rightarrow> bool \<Rightarrow> real \<Rightarrow> gpu_state \<Rightarrow> gpu_state" where
  "writeDebugView E c thread_id initialSample isGBufferSimilar reflectionReprojectionWeight s =
     (if debugView c = DEBUG_VIEW_RESTIR_GI_INITIAL_SAMPLE E then
        storeInDebugView thread_id (radiance initialSample) s
      else if debugView c = DEBUG_VIEW_RESTIR_GI_TEMPORAL_REUSE E then
        storeInDebugView thread_id
          (finite3
             (if isGBufferSimilar
              then lerp3 (1, 0, 0) (0, 1, 0) reflectionReprojectionWeight
              else (0, 0, 0))) s
      else if debugView c = DEBUG_VIEW_NAN E then
        (let isValid = True;
             isValid = (isValid \<and> isValidValue E (radiance initialSample))
         in accumulateInDebugViewAnd thread_id isValid s)
      else s)"

subsection \<open>The entry point\<close>

text \<open>
  Lines 119 to 216: the random sampler is initialised, the previous pixel is found, and
  \<^verbatim>\<open>ReSTIRGI_TemporalResampling\<close> is called. The result is what the call returns
  (the reservoir, \<^verbatim>\<open>isGBufferSimilar\<close>, \<^verbatim>\<open>isInitialSample\<close>), the
  reprojection and the state.
\<close>

definition temporalResampling ::
  "env \<Rightarrow> cb \<Rightarrow> buffers \<Rightarrow> pixel \<Rightarrow> RAB_Surface \<Rightarrow> ReSTIRGI_Reservoir \<Rightarrow> gpu_state \<Rightarrow>
   (ReSTIRGI_Reservoir \<times> bool \<times> bool) \<times> Reprojection \<times> gpu_state" where
  "temporalResampling E c B thread_id surface initialSample s0 =
     (let rng = RAB_InitRandomSampler E thread_id (frameIdx c) 2;
          virtualMotionVector = PrimaryVirtualMotionVector B thread_id;
          prevPixelCenter = motionPrevPixelCenter E (camera c) surface virtualMotionVector;
          expectedPrevHitDistance =
            expectedPrevHitDistance_of E (camera c) surface virtualMotionVector;
          depthThreshold = depthThreshold_of surface;
          normalThreshold = normalThreshold_of surface;
          reflectionWeight = reflectionWeight_of E c surface;
          (r, s) =
            reflectionReprojection E c surface thread_id prevPixelCenter depthThreshold
              reflectionWeight rng s0;
          tparams =
            tparams_of E c r expectedPrevHitDistance normalThreshold virtualMotionVector
      in (ReSTIRGI_TemporalResampling E (reservoirs s) initialSample thread_id surface
            (r_rng r) tparams,
          r, s))"

definition main :: "env \<Rightarrow> cb \<Rightarrow> buffers \<Rightarrow> pixel \<Rightarrow> gpu_state \<Rightarrow> gpu_state" where
  "main E c B thread_id s0 =
     (if fst thread_id \<ge> fst (resolution (camera c))
         \<or> snd thread_id \<ge> snd (resolution (camera c))
      then s0
      else
        (let surface = RAB_GetGBufferSurface B thread_id
         in if \<not> RAB_IsSurfaceValid E surface then s0
            else
              (let initialSample = candidate E c B thread_id surface;
                   s = RAB_StoreGIReservoir initialSample thread_id
                         (ReSTIRGI_GetInitSamplePage E) s0;
                   ((resultReservoir, isGBufferSimilar, isInitialSample), r, s) =
                     temporalResampling E c B thread_id surface initialSample s;
                   (resultReservoir, s) =
                     visibilityRevalidation E c surface resultReservoir isGBufferSimilar
                       isInitialSample s;
                   resultReservoir =
                     (if \<not> enableReSTIRGITemporalReuse c then initialSample
                      else resultReservoir);
                   s = RAB_StoreGIReservoir resultReservoir thread_id
                         (ReSTIRGI_GetTemporalOutputPage E) s
               in writeDebugView E c thread_id initialSample isGBufferSimilar
                    (r_reflectionReprojectionWeight r) s)))"

subsection \<open>Helpers described by the specification only\<close>

text \<open>
  Modelled from the spec: \<^verbatim>\<open>calcBt709Luminance\<close> is defined in an included header
  that is not at hand. The specification speaks of the luminance of a radiance value;
  the helper's name fixes the Rec. 709 weights.
\<close>

fun spec_calcBt709Luminance :: "vec3 \<Rightarrow> real" where
  "spec_calcBt709Luminance (r, g, b) = 0.2126 * r + 0.7152 * g + 0.0722 * b"

text \<open>
  Modelled from the spec: \<^verbatim>\<open>sanitize\<close> is defined in an included header that is
  not at hand. The specification says that NaN and Inf radiance is sanitised to zero:
  a value with a non-finite component is replaced by the default handed in.
\<close>

fun spec_sanitize :: "fvec3 \<Rightarrow> vec3 \<Rightarrow> vec3" where
  "spec_sanitize (Finite r, Finite g, Finite b) defaultVal = (r, g, b)"
| "spec_sanitize val defaultVal = defaultVal"

text \<open>
  Modelled from the spec: \<^verbatim>\<open>fireflyFiltering\<close> is defined in an included header
  that is not at hand. The specification says that luminance above the limit is
  clamped down to it while hue and direction are preserved: the value is scaled by
  the ratio of the limit to its luminance. A luminance of zero can only be above a
  negative limit; the ratio is then a quotient by zero, and no component of the scaled
  value is finite.
\<close>

definition spec_fireflyFiltering :: "vec3 \<Rightarrow> real \<Rightarrow> fvec3" where
  "spec_fireflyFiltering val maxLuminance =
     (let luminance = spec_calcBt709Luminance val
      in if luminance > maxLuminance then
           (if luminance = 0 then (NonFinite, NonFinite, NonFinite)
            else finite3 (scale3 val (maxLuminance / luminance)))
         else finite3 val)"

text \<open>
  Modelled from the spec: \<^verbatim>\<open>ReSTIRGI_TemporalResampling\<close> is defined in an
  included header that is not at hand. Section 4.3 of the specification gives the
  \<open>M\<close> of its result: on a fallback (reprojection out of bounds, invalid history,
  failed similarity test) and on a previous reservoir with \<open>M = 0\<close> the candidate is
  the result unmodified; otherwise the merged \<open>M\<close> is the sum of both \<open>M\<close>s clamped to
  \<open>temporalHistoryLength\<close>.
\<close>

definition spec_resampled_M :: "nat \<Rightarrow> bool \<Rightarrow> nat \<Rightarrow> nat \<Rightarrow> nat" where
  "spec_resampled_M historyLength fallback candidateM previousM =
     (if fallback \<or> previousM = 0 then candidateM
      else min (candidateM + previousM) historyLength)"

subsection \<open>A concrete frame\<close>

text \<open>
  One environment, constant buffer, surface and set of input resources, on which the
  definitions above are evaluated in the closed instances below. The helpers of the
  environment are simple stand-ins of the right types.
\<close>

definition identity4 :: mat4 where
  "identity4 = ((1, 0, 0, 0), (0, 1, 0, 0), (0, 0, 1, 0), (0, 0, 0, 1))"

definition env0 :: env where
  "env0 =
     \<lparr>RAB_IsSurfaceValid = (\<lambda>surface. True),
      sanitize = spec_sanitize,
      fireflyFiltering = spec_fireflyFiltering,
      setPortalID = (\<lambda>portalID flags. flags),
      RESTIR_GI_INVALID_INDIRECT_LIGHT_PORTAL_ID = 255,
      getOpposingRayPortalIndex = (\<lambda>portalID. unat portalID),
      rayPortalHitInfoIsActive = (\<lambda>info. encodedPortalToOpposingPortalDirection info \<noteq> []),
      unpack = (\<lambda>encoded. identity4),
      setVirtualFraction = (\<lambda>fraction flags. flags),
      RAB_RESTIR_GI_DELTA_ROUGHNESS = 0.01,
      ReSTIRGI_GetInitSamplePage = 2,
      ReSTIRGI_GetTemporalInputPage = 0,
      ReSTIRGI_GetTemporalOutputPage = 1,
      RAB_InitRandomSampler = (\<lambda>px frame offset. 0),
      RAB_GetNextRandom = (\<lambda>rng. (0, rng + 1)),
      cameraNDCToScreenUV = (\<lambda>cam ndc. (fst ndc * 0.5 + 0.5, 0.5 - snd ndc * 0.5)),
      cameraGetPreviousWorldPosition = (\<lambda>cam. (0, 0, 0, 1)),
      calcBt709Luminance = spec_calcBt709Luminance,
      evalOpaqueSchlickFresnel = (\<lambda>baseReflectivity cosine. baseReflectivity),
      OBJECT_MASK_OPAQUE = 1,
      OBJECT_MASK_ALL_DYNAMIC = 6,
      traceVisibilityRay =
        (\<lambda>msi dst rayMask space viewModel. \<lparr>hasOpaqueHit = True, hitDistance = 5\<rparr>),
      ReSTIRGI_TemporalResampling =
        (\<lambda>pages initialSample px surface rng tparams.
           (initialSample\<lparr>M := min (M initialSample + 8) (tp_temporalHistoryLength tparams)\<rparr>,
            True, False)),
      RTXDI_BIAS_CORRECTION_PAIRWISE_RAY_TRACED = 3,
      RAB_TraceGISampleVisibility = (\<lambda>surface1 surface2 reservoir portals. False),
      RESTIR_GI_FLAG_OCCLUDED_SAMPLE = 1,
      clearFlag = (\<lambda>flag flags. flags AND NOT flag),
      setFlag = (\<lambda>flag flags. flags OR flag),
      DEBUG_VIEW_RESTIR_GI_INITIAL_SAMPLE = 1,
      DEBUG_VIEW_RESTIR_GI_TEMPORAL_REUSE = 2,
      DEBUG_VIEW_NAN = 3,
      isValidValue = all_finite\<rparr>"

definition cb0 :: cb where
  "cb0 =
     \<lparr>camera = \<lparr>resolution = (100, 100), prevWorldToProjection = identity4\<rparr>,
      fireflyFilteringLuminanceThreshold = 1,
      rayPortalHitInfos = (\<lambda>i. \<lparr>encodedPortalToOpposingPortalDirection = []\<rparr>),
      enableReSTIRGIVirtualSample = 1,
      frameIdx = 7,
      enableReSTIRGIReflectionReprojection = 1,
      enableReSTIRGIDiscardEnlargedPixels = True,
      restirGIReflectionMinParallax = 3,
      temporalHistoryLength = 30,
      enableReSTIRGITemporalJacobian = False,
      enableReSTIRGITemporalBiasCorrection = False,
      uniformRandomNumber = 0,
      enableReSTIRGIPermutationSampling = False,
      permutationSamplingSize = 0,
      teleportationPortalIndex = 0,
      reSTIRGIBiasCorrectionMode = 3,
      numActiveRayPortals = 0,
      enableReSTIRGITemporalReuse = True,
      debugView = 0\<rparr>"

definition surface0 :: RAB_Surface where
  "surface0 =
     \<lparr>minimalSurfaceInteraction = \<lparr>msi_position = (0.2, 0, - 5), triangleNormal = (0, 0, - 1)\<rparr>,
      minimalRayInteraction = \<lparr>viewDirection = (0, 0, - 1)\<rparr>,
      opaqueSurfaceMaterialInteraction =
        \<lparr>isotropicRoughness = 0.5, shadingNormal = (0, 0, - 1),
         albedo = (0.5, 0.5, 0.5), baseReflectivity = (0.5, 0.5, 0.5)\<rparr>,
      virtualWorldPosition = (0, 0, 0),
      objectMask = 1,
      portalSpace = 0,
      isViewModel = False\<rparr>"

definition buffers0 :: buffers where
  "buffers0 =
     \<lparr>RAB_GetGBufferSurface = (\<lambda>px. surface0),
      geometryFlagsReadFromGBuffer = (\<lambda>px. \<lparr>primarySelectedIntegrationSurface = True\<rparr>),
      RestirGIRadiance = (\<lambda>px. \<lparr>rgb = (Finite 100, Finite 100, Finite 100), w = 2\<rparr>),
      ReSTIRGI_LoadHitGeometry =
        (\<lambda>px. \<lparr>hit_position = (0.2, 0, - 4), hit_normal = (0, 0, - 1), hit_portalID = 255\<rparr>),
      PrimaryVirtualMotionVector = (\<lambda>px. (0.2, 0, 0))\<rparr>"

definition state0 :: gpu_state where
  "state0 = \<lparr>reservoirs = (\<lambda>k. None), debugViewOutput = (\<lambda>px. None), rays = []\<rparr>"

section \<open>Properties of the render targets\<close>

lemma getImageSize_loop_first:
  assumes "length (m_colorTargets rt) = N" "k < N" "i \<le> k"
    and "view (m_colorTargets rt ! k) = Some v"
    and "\<forall>j. i \<le> j \<and> j < k \<longrightarrow> view (m_colorTargets rt ! j) = None"
  shows "getImageSize_loop N rt i = Inr (renderTargetSize v)"
  using assms
proof (induction N rt i rule: getImageSize_loop.induct)
  case (1 N rt i)
  show ?case
  proof (cases "i = k")
    case True
    with "1.prems" show ?thesis
      by (subst getImageSize_loop.simps) (simp add: at_array_def)
  next
    case False
    with "1.prems" have lt: "i < k" and none: "view (m_colorTargets rt ! i) = None"
      by auto
    from lt "1.prems" have iN: "i < N" by simp
    have "getImageSize_loop N rt (i + 1) = Inr (renderTargetSize v)"
      using "1.IH" [of "m_colorTargets rt ! i"] "1.prems" lt none iN
      by (simp add: at_array_def)
    with none iN "1.prems"(1) show ?thesis
      by (subst getImageSize_loop.simps) (simp add: at_array_def)
  qed
qed

lemma getImageSize_loop_none:
  assumes "length (m_colorTargets rt) = N"
    and "\<forall>j. i \<le> j \<and> j < N \<longrightarrow> view (m_colorTargets rt ! j) = None"
  shows "getImageSize_loop N rt i = Inr (DxvkFramebufferSize 0 0 0)"
  using assms
proof (induction N rt i rule: getImageSize_loop.induct)
  case (1 N rt i)
  show ?case
  proof (cases "i < N")
    case True
    with "1.prems" have none: "view (m_colorTargets rt ! i) = None" by simp
    have "getImageSize_loop N rt (i + 1) = Inr (DxvkFramebufferSize 0 0 0)"
      using "1.IH" [of "m_colorTargets rt ! i"] "1.prems" True none
      by (simp add: at_array_def)
    with none True "1.prems"(1) show ?thesis
      by (subst getImageSize_loop.simps) (simp add: at_array_def)
  next
    case False
    then show ?thesis
      by (subst getImageSize_loop.simps) simp
  qed
qed

lemma hasAttachments_loop_eq:
  assumes "length (m_colorTargets rt) = N"
  shows "hasAttachments_loop N rt i result =
         Inr (result \<or> (\<exists>j. i \<le> j \<and> j < N \<and> view (m_colorTargets rt ! j) \<noteq> None))"
  using assms
proof (induction N rt i result rule: hasAttachments_loop.induct)
  case (1 N rt i result)
  show ?case
  proof (cases "i < N \<and> \<not> result")
    case True
    have step: "hasAttachments_loop N rt (i + 1) (result \<or> view (m_colorTargets rt ! i) \<noteq> None) =
          Inr ((result \<or> view (m_colorTargets rt ! i) \<noteq> None) \<or>
               (\<exists>j. i + 1 \<le> j \<and> j < N \<and> view (m_colorTargets rt ! j) \<noteq> None))"
      using "1.IH" [of "m_colorTargets rt ! i"] "1.prems" True
      by (simp add: at_array_def)
    have split: "(\<exists>j. i \<le> j \<and> j < N \<and> view (m_colorTargets rt ! j) \<noteq> None) \<longleftrightarrow>
          (view (m_colorTargets rt ! i) \<noteq> None \<or>
           (\<exists>j. i + 1 \<le> j \<and> j < N \<and> view (m_colorTargets rt ! j) \<noteq> None))"
      (is "?L \<longleftrightarrow> ?R")
    proof
      assume ?L
      then obtain j where j: "i \<le> j" "j < N" "view (m_colorTargets rt ! j) \<noteq> None"
        by blast
      show ?R
      proof (cases "j = i")
        case True
        with j show ?thesis by simp
      next
        case False
        with j have "i + 1 \<le> j" by simp
        with j show ?thesis by blast
      qed
    next
      assume ?R
      then show ?L
      proof
        assume "view (m_colorTargets rt ! i) \<noteq> None"
        with True show ?L by blast
      next
        assume "\<exists>j. i + 1 \<le> j \<and> j < N \<and> view (m_colorTargets rt ! j) \<noteq> None"
        then obtain j where "i + 1 \<le> j" "j < N" "view (m_colorTargets rt ! j) \<noteq> None"
          by blast
        then have "i \<le> j \<and> j < N \<and> view (m_colorTargets rt ! j) \<noteq> None" by simp
        then show ?L by blast
      qed
    qed
    from True "1.prems" have "hasAttachments_loop N rt i result =
        hasAttachments_loop N rt (i + 1) (result \<or> view (m_colorTargets rt ! i) \<noteq> None)"
      by (subst hasAttachments_loop.simps) (simp add: at_array_def)
    with step split True show ?thesis by simp
  next
    case False
    have "hasAttachments_loop N rt i result = Inr result"
      using False by (subst hasAttachments_loop.simps) auto
    with False show ?thesis by auto
  qed
qed

text \<open>
  Claim C10. With the colour array of its declared size \<open>N\<close>,
  \<^verbatim>\<open>getImageSize\<close> returns the size of the depth view when that view is
  non-null; with a null depth view it returns the size of the non-null colour view of
  lowest index; with no view bound at all it returns \<open>{0, 0, 0}\<close>. A view is chosen
  exactly when \<^verbatim>\<open>hasAttachments\<close> returns true, and neither function throws.
\<close>

theorem getImageSize_selects_first_bound_target:
  assumes len: "length (m_colorTargets rt) = N"
  shows "(\<forall>v. view (m_depthTarget rt) = Some v \<longrightarrow>
            getImageSize N rt = Inr (renderTargetSize v))
       \<and> (\<forall>k v. view (m_depthTarget rt) = None \<and> k < N
              \<and> view (m_colorTargets rt ! k) = Some v
              \<and> (\<forall>j<k. view (m_colorTargets rt ! j) = None) \<longrightarrow>
            getImageSize N rt = Inr (renderTargetSize v))
       \<and> (view (m_depthTarget rt) = None
              \<and> (\<forall>j<N. view (m_colorTargets rt ! j) = None) \<longrightarrow>
            getImageSize N rt = Inr (DxvkFramebufferSize 0 0 0))
       \<and> hasAttachments N rt =
            Inr (view (m_depthTarget rt) \<noteq> None
                 \<or> (\<exists>j<N. view (m_colorTargets rt ! j) \<noteq> None))"
proof (intro conjI allI impI)
  fix v assume "view (m_depthTarget rt) = Some v"
  then show "getImageSize N rt = Inr (renderTargetSize v)"
    by (simp add: getImageSize_def)
next
  fix k v
  assume h: "view (m_depthTarget rt) = None \<and> k < N
      \<and> view (m_colorTargets rt ! k) = Some v
      \<and> (\<forall>j<k. view (m_colorTargets rt ! j) = None)"
  then have "getImageSize_loop N rt 0 = Inr (renderTargetSize v)"
    using getImageSize_loop_first [OF len, of k 0 v] by simp
  with h show "getImageSize N rt = Inr (renderTargetSize v)"
    by (simp add: getImageSize_def)
next
  assume h: "view (m_depthTarget rt) = None
      \<and> (\<forall>j<N. view (m_colorTargets rt ! j) = None)"
  then have "getImageSize_loop N rt 0 = Inr (DxvkFramebufferSize 0 0 0)"
    using getImageSize_loop_none [OF len, of 0] by simp
  with h show "getImageSize N rt = Inr (DxvkFramebufferSize 0 0 0)"
    by (simp add: getImageSize_def)
next
  show "hasAttachments N rt =
      Inr (view (m_depthTarget rt) \<noteq> None
           \<or> (\<exists>j<N. view (m_colorTargets rt ! j) \<noteq> None))"
    using hasAttachments_loop_eq [OF len, of 0 "view (m_depthTarget rt) \<noteq> None"]
    by (simp add: hasAttachments_def)
qed

theorem getImageSize_selects_first_bound_target_witness:
  "getImageSize 3
     \<lparr>m_depthTarget = \<lparr>view = None, layout = 0\<rparr>,
      m_colorTargets =
        [\<lparr>view = None, layout = 0\<rparr>,
         \<lparr>view = Some \<lparr>mipLevelExtent = (\<lambda>l. \<lparr>width = 640, height = 480, depth = 1\<rparr>),
                        numLayers = 6\<rparr>, layout = 0\<rparr>,
         \<lparr>view = Some \<lparr>mipLevelExtent = (\<lambda>l. \<lparr>width = 320, height = 240, depth = 1\<rparr>),
                        numLayers = 1\<rparr>, layout = 0\<rparr>]\<rparr>
   = Inr (DxvkFramebufferSize 640 480 6)
   \<and> hasAttachments 3
     \<lparr>m_depthTarget = \<lparr>view = None, layout = 0\<rparr>,
      m_colorTargets =
        [\<lparr>view = None, layout = 0\<rparr>,
         \<lparr>view = Some \<lparr>mipLevelExtent = (\<lambda>l. \<lparr>width = 640, height = 480, depth = 1\<rparr>),
                        numLayers = 6\<rparr>, layout = 0\<rparr>,
         \<lparr>view = Some \<lparr>mipLevelExtent = (\<lambda>l. \<lparr>width = 320, height = 240, depth = 1\<rparr>),
                        numLayers = 1\<rparr>, layout = 0\<rparr>]\<rparr>
   = Inr True"
proof -
  define v1 :: DxvkImageView
    where "v1 = \<lparr>mipLevelExtent = (\<lambda>l. \<lparr>width = 640, height = 480, depth = 1\<rparr>), numLayers = 6\<rparr>"
  define v2 :: DxvkImageView
    where "v2 = \<lparr>mipLevelExtent = (\<lambda>l. \<lparr>width = 320, height = 240, depth = 1\<rparr>), numLayers = 1\<rparr>"
  define rt where "rt = \<lparr>m_depthTarget = \<lparr>view = None, layout = 0\<rparr>,
      m_colorTargets = [\<lparr>view = None, layout = 0\<rparr>, \<lparr>view = Some v1, layout = 0\<rparr>,
                        \<lparr>view = Some v2, layout = 0\<rparr>]\<rparr>"
  have len: "length (m_colorTargets rt) = 3" by (simp add: rt_def)
  note inst = getImageSize_selects_first_bound_target [OF len]
  have pre: "view (m_depthTarget rt) = None \<and> (1::nat) < 3
      \<and> view (m_colorTargets rt ! 1) = Some v1
      \<and> (\<forall>j<1. view (m_colorTargets rt ! j) = None)"
    by (simp add: rt_def)
  from inst pre have size: "getImageSize 3 rt = Inr (renderTargetSize v1)"
    by blast
  have ex: "\<exists>j<3. view (m_colorTargets rt ! j) \<noteq> None"
    by (rule exI [of _ 1]) (simp add: rt_def)
  from inst ex have has: "hasAttachments 3 rt = Inr True"
    by simp
  from size has show ?thesis
    by (simp add: rt_def v1_def v2_def renderTargetSize_def)
qed

section \<open>Properties of the temporal-reuse shader\<close>

subsection \<open>What the stages leave unchanged\<close>

lemma reservoirs_writeDebugView:
  "reservoirs (writeDebugView E c px r b x s) = reservoirs s"
  by (simp add: writeDebugView_def storeInDebugView_def accumulateInDebugViewAnd_def Let_def)

lemma reservoirs_RAB_StoreGIReservoir:
  "reservoirs (RAB_StoreGIReservoir r px page s) = (reservoirs s)((page, px) \<mapsto> r)"
  by (simp add: RAB_StoreGIReservoir_def)

lemma radiance_candidate:
  "radiance (candidate E c B px surface) =
   radiance (fst (loadRadiance E c (geometryFlagsReadFromGBuffer B px) (RestirGIRadiance B px)
                    (ReSTIRGI_LoadHitGeometry B px)))"
  by (simp add: candidate_def transformAcrossPortal_def virtualSample_def Let_def
        split: prod.splits)

lemma M_candidate: "M (candidate E c B px surface) = 1"
  by (simp add: candidate_def loadRadiance_def transformAcrossPortal_def virtualSample_def
        Let_def split: prod.splits)

lemma M_visibilityRevalidation:
  "M (fst (visibilityRevalidation E c surface r sim init s)) = M r"
  by (simp add: visibilityRevalidation_def Let_def)

lemma main_output_page:
  assumes "fst thread_id < fst (resolution (camera c))"
    and "snd thread_id < snd (resolution (camera c))"
    and "RAB_IsSurfaceValid E (RAB_GetGBufferSurface B thread_id)"
  shows "reservoirs (main E c B thread_id s) (ReSTIRGI_GetTemporalOutputPage E, thread_id) =
     Some
       (let surface = RAB_GetGBufferSurface B thread_id;
            initialSample = candidate E c B thread_id surface;
            T = temporalResampling E c B thread_id surface initialSample
                  (RAB_StoreGIReservoir initialSample thread_id (ReSTIRGI_GetInitSamplePage E) s)
        in if \<not> enableReSTIRGITemporalReuse c then initialSample
           else fst (visibilityRevalidation E c surface (fst (fst T)) (fst (snd (fst T)))
                       (snd (snd (fst T))) (snd (snd T))))"
  using assms
  by (simp add: main_def Let_def reservoirs_writeDebugView reservoirs_RAB_StoreGIReservoir
        split: prod.splits)

lemma rays_writeDebugView:
  "rays (writeDebugView E c px r b x s) = rays s"
  by (simp add: writeDebugView_def storeInDebugView_def accumulateInDebugViewAnd_def Let_def)

lemma rays_RAB_StoreGIReservoir:
  "rays (RAB_StoreGIReservoir r px page s) = rays s"
  by (simp add: RAB_StoreGIReservoir_def)

lemma main_rays:
  assumes "fst thread_id < fst (resolution (camera c))"
    and "snd thread_id < snd (resolution (camera c))"
    and "RAB_IsSurfaceValid E (RAB_GetGBufferSurface B thread_id)"
  shows "rays (main E c B thread_id s) =
     (let surface = RAB_GetGBufferSurface B thread_id;
          initialSample = candidate E c B thread_id surface;
          T = temporalResampling E c B thread_id surface initialSample
                (RAB_StoreGIReservoir initialSample thread_id (ReSTIRGI_GetInitSamplePage E) s)
      in rays (snd (visibilityRevalidation E c surface (fst (fst T)) (fst (snd (fst T)))
                      (snd (snd (fst T))) (snd (snd T)))))"
  using assms
  by (simp add: main_def Let_def rays_writeDebugView rays_RAB_StoreGIReservoir
        split: prod.splits)

subsection \<open>The concrete frame, evaluated\<close>

lemma sqrt_25: "sqrt 25 = 5"
  by (rule real_sqrt_unique) simp_all

lemma candidate_frame0:
  "candidate env0 cb0 buffers0 (50, 50) surface0 =
     \<lparr>position = (0.2, 0, - 3), normal = (0, 0, - 1), radiance = (Finite 30, Finite 30, Finite 30),
      avgWeight = 1, M = 1, flagsAndVirtualFraction = 0\<rparr>"
  by (simp add: candidate_def loadRadiance_def transformAcrossPortal_def virtualSample_def
        env0_def cb0_def buffers0_def surface0_def spec_fireflyFiltering_def normalize3_def
        Let_def)

lemma motionPrevPixelCenter_frame0:
  "motionPrevPixelCenter env0 (camera cb0) surface0 (0.2, 0, 0) = (60, 50)"
  by (simp add: motionPrevPixelCenter_def screenPosition_def env0_def cb0_def surface0_def
        identity4_def Let_def)

lemma prevReflectionCenter_frame0:
  "prevReflectionCenter_of env0 (camera cb0) surface0 = (60, 50)"
  by (simp add: prevReflectionCenter_of_def screenPosition_def env0_def cb0_def surface0_def
        identity4_def Let_def)

lemma reflectionWeight_frame0: "reflectionWeight_of env0 cb0 surface0 = 0.25"
  by (simp add: reflectionWeight_of_def env0_def cb0_def surface0_def Let_def)

subsection \<open>Output policy\<close>

text \<open>
  Claim C1. When \<^verbatim>\<open>enableReSTIRGITemporalReuse\<close> is false, then for every pixel inside
  the resolution whose surface is valid, the reservoir that \<^verbatim>\<open>main\<close> leaves in the
  temporal output page at that pixel is the candidate (the initial sample), whatever the
  resampling and the visibility revalidation computed: the environment, and with it
  \<^verbatim>\<open>ReSTIRGI_TemporalResampling\<close> and the visibility trace, is arbitrary.
\<close>

theorem temporal_reuse_disabled_identity:
  assumes "fst thread_id < fst (resolution (camera c))"
    and "snd thread_id < snd (resolution (camera c))"
    and "RAB_IsSurfaceValid E (RAB_GetGBufferSurface B thread_id)"
    and "\<not> enableReSTIRGITemporalReuse c"
  shows "reservoirs (main E c B thread_id s) (ReSTIRGI_GetTemporalOutputPage E, thread_id) =
         Some (candidate E c B thread_id (RAB_GetGBufferSurface B thread_id))"
  using assms
  by (simp add: main_def Let_def reservoirs_writeDebugView reservoirs_RAB_StoreGIReservoir
        split: prod.splits)

theorem temporal_reuse_disabled_identity_witness:
  "reservoirs (main env0 (cb0\<lparr>enableReSTIRGITemporalReuse := False\<rparr>) buffers0 (50, 50) state0)
     (1, (50, 50)) =
   Some (candidate env0 (cb0\<lparr>enableReSTIRGITemporalReuse := False\<rparr>) buffers0 (50, 50) surface0)"
  using temporal_reuse_disabled_identity
    [of "(50, 50)" "cb0\<lparr>enableReSTIRGITemporalReuse := False\<rparr>" env0 buffers0 state0]
  by (simp add: cb0_def env0_def buffers0_def)

subsection \<open>History length\<close>

text \<open>
  Claim C2. As stated, the claim bounds \<open>M\<close> of every reservoir by the configured
  \<^verbatim>\<open>temporalHistoryLength\<close>; the candidate always has \<open>M = 1\<close>, so the bound fails for
  a history length of \<open>0\<close> (see the instance after the theorem). With a history length
  of at least one the claim holds: the candidate has \<open>1 \<le> M \<le> temporalHistoryLength\<close>; so
  does the \<open>M\<close> that the specification gives the resampled reservoir; and when the
  resampler called by \<^verbatim>\<open>main\<close> returns a reservoir with that \<open>M\<close>, the reservoir
  left in the temporal output page has \<open>1 \<le> M \<le> temporalHistoryLength\<close>, with or
  without visibility revalidation and temporal reuse.
\<close>

theorem reservoir_M_within_history_length:
  assumes cap: "1 \<le> temporalHistoryLength c"
  shows "1 \<le> M (candidate E c B thread_id surface)
       \<and> M (candidate E c B thread_id surface) \<le> temporalHistoryLength c
       \<and> 1 \<le> spec_resampled_M (temporalHistoryLength c) fallback
                (M (candidate E c B thread_id surface)) previousM
       \<and> spec_resampled_M (temporalHistoryLength c) fallback
            (M (candidate E c B thread_id surface)) previousM \<le> temporalHistoryLength c
       \<and> (fst thread_id < fst (resolution (camera c))
            \<and> snd thread_id < snd (resolution (camera c))
            \<and> RAB_IsSurfaceValid E (RAB_GetGBufferSurface B thread_id)
            \<and> M (fst (fst (temporalResampling E c B thread_id (RAB_GetGBufferSurface B thread_id)
                    (candidate E c B thread_id (RAB_GetGBufferSurface B thread_id))
                    (RAB_StoreGIReservoir
                       (candidate E c B thread_id (RAB_GetGBufferSurface B thread_id))
                       thread_id (ReSTIRGI_GetInitSamplePage E) s))))
                = spec_resampled_M (temporalHistoryLength c) fallback
                    (M (candidate E c B thread_id (RAB_GetGBufferSurface B thread_id))) previousM
          \<longrightarrow> (\<exists>r. reservoirs (main E c B thread_id s)
                       (ReSTIRGI_GetTemporalOutputPage E, thread_id) = Some r
                    \<and> 1 \<le> M r \<and> M r \<le> temporalHistoryLength c))"
proof -
  have rng: "1 \<le> spec_resampled_M (temporalHistoryLength c) fallback 1 previousM
      \<and> spec_resampled_M (temporalHistoryLength c) fallback 1 previousM \<le> temporalHistoryLength c"
    using cap by (auto simp: spec_resampled_M_def)
  have out: "\<exists>r. reservoirs (main E c B thread_id s)
                       (ReSTIRGI_GetTemporalOutputPage E, thread_id) = Some r
                    \<and> 1 \<le> M r \<and> M r \<le> temporalHistoryLength c"
    if inx: "fst thread_id < fst (resolution (camera c))"
      and iny: "snd thread_id < snd (resolution (camera c))"
      and valid: "RAB_IsSurfaceValid E (RAB_GetGBufferSurface B thread_id)"
      and spec: "M (fst (fst (temporalResampling E c B thread_id (RAB_GetGBufferSurface B thread_id)
                    (candidate E c B thread_id (RAB_GetGBufferSurface B thread_id))
                    (RAB_StoreGIReservoir
                       (candidate E c B thread_id (RAB_GetGBufferSurface B thread_id))
                       thread_id (ReSTIRGI_GetInitSamplePage E) s))))
                = spec_resampled_M (temporalHistoryLength c) fallback
                    (M (candidate E c B thread_id (RAB_GetGBufferSurface B thread_id))) previousM"
  proof (cases "enableReSTIRGITemporalReuse c")
    case False
    with main_output_page [OF inx iny valid, of s] cap show ?thesis
      by (simp add: Let_def M_candidate)
  next
    case True
    with main_output_page [OF inx iny valid, of s] spec rng show ?thesis
      by (simp add: Let_def M_candidate M_visibilityRevalidation)
  qed
  from cap rng out show ?thesis
    by (simp add: M_candidate)
qed

theorem reservoir_M_within_history_length_witness:
  "M (candidate env0 cb0 buffers0 (50, 50) surface0) = 1
   \<and> spec_resampled_M 30 False 1 8 = 9
   \<and> (\<exists>r. reservoirs (main env0 cb0 buffers0 (50, 50) state0) (1, (50, 50)) = Some r
          \<and> 1 \<le> M r \<and> M r \<le> 30)"
proof -
  have cap: "1 \<le> temporalHistoryLength cb0" by (simp add: cb0_def)
  have surface: "RAB_GetGBufferSurface buffers0 (50, 50) = surface0"
    by (simp add: buffers0_def)
  have resampler: "ReSTIRGI_TemporalResampling env0 pages r px sf g tp =
      (r\<lparr>M := min (M r + 8) (tp_temporalHistoryLength tp)\<rparr>, True, False)"
    for pages r px sf g tp
    by (simp add: env0_def)
  have spec: "M (fst (fst (temporalResampling env0 cb0 buffers0 (50, 50) surface0
        (candidate env0 cb0 buffers0 (50, 50) surface0)
        (RAB_StoreGIReservoir (candidate env0 cb0 buffers0 (50, 50) surface0) (50, 50)
           (ReSTIRGI_GetInitSamplePage env0) state0))))
      = spec_resampled_M (temporalHistoryLength cb0) False
          (M (candidate env0 cb0 buffers0 (50, 50) surface0)) 8"
    by (simp add: temporalResampling_def Let_def resampler tparams_of_def spec_resampled_M_def
          split: prod.splits)
  have inb: "fst (50::nat, 50::nat) < fst (resolution (camera cb0))"
    "snd (50::nat, 50::nat) < snd (resolution (camera cb0))"
    by (simp_all add: cb0_def)
  have valid: "RAB_IsSurfaceValid env0 (RAB_GetGBufferSurface buffers0 (50, 50))"
    by (simp add: env0_def)
  have page: "ReSTIRGI_GetTemporalOutputPage env0 = 1" by (simp add: env0_def)
  from reservoir_M_within_history_length
    [OF cap, of env0 buffers0 "(50, 50)" surface0 False 8 state0]
    inb valid spec
  show ?thesis
    by (simp add: surface page M_candidate spec_resampled_M_def cb0_def)
qed

theorem candidate_M_exceeds_zero_history_length:
  "M (candidate env0 (cb0\<lparr>temporalHistoryLength := 0\<rparr>) buffers0 (50, 50) surface0) = 1
   \<and> temporalHistoryLength (cb0\<lparr>temporalHistoryLength := 0\<rparr>) = 0
   \<and> \<not> M (candidate env0 (cb0\<lparr>temporalHistoryLength := 0\<rparr>) buffers0 (50, 50) surface0)
        \<le> temporalHistoryLength (cb0\<lparr>temporalHistoryLength := 0\<rparr>)"
  by (simp add: M_candidate)

subsection \<open>Virtual sample\<close>

lemma length3_pos: "any_nonzero3 d \<Longrightarrow> 0 < length3 d"
proof (cases d)
  case (fields a b c)
  assume "any_nonzero3 d"
  with fields have "a \<noteq> 0 \<or> b \<noteq> 0 \<or> c \<noteq> 0" by simp
  then have "0 < a * a + b * b + c * c"
    by (metis add_pos_nonneg add_nonneg_pos zero_le_square not_real_square_gt_zero
          add_nonneg_nonneg)
  with fields show ?thesis by simp
qed

lemma extend_by_surplus:
  "n \<noteq> 0 \<Longrightarrow>
   add3 q (scale3 (scale3 (sub3 p q) (1 / n)) l) =
   add3 p (scale3 (scale3 (sub3 p q) (1 / n)) (l - n))"
  by (cases p; cases q) (simp add: field_simps)

lemma extend_along_direction:
  assumes "any_nonzero3 (sub3 p q)"
  shows "add3 q (scale3 (normalize3 (sub3 p q)) l) =
         add3 p (scale3 (normalize3 (sub3 p q)) (l - length3 (sub3 p q)))"
  unfolding normalize3_def
  using length3_pos [OF assms] by (intro extend_by_surplus) simp

text \<open>
  Claim C3. As stated, the claim has the sample moved beyond the hit by 1.2 times the
  path-length surplus; the source applies the factor 1.2 to the virtual fraction it
  stores, not to the position (see the instance after the theorem). What holds: when
  virtual samples are enabled, the isotropic roughness exceeds
  \<^verbatim>\<open>RAB_RESTIR_GI_DELTA_ROUGHNESS\<close>, the direction from the surface to the hit is
  nonzero and \<^verbatim>\<open>indirectPathLength\<close> exceeds its length by more than 1%, the sample
  is placed on the ray from the surface through the hit at distance
  \<^verbatim>\<open>indirectPathLength\<close> from the surface, that is, beyond the hit by the surplus
  itself; its normal is the negated normalised direction; and the virtual fraction is
  set to 1.2 times the surplus.
\<close>

theorem virtual_sample_repositions:
  assumes "0 < enableReSTIRGIVirtualSample c"
    and "isotropicRoughness (opaqueSurfaceMaterialInteraction surface)
           > RAB_RESTIR_GI_DELTA_ROUGHNESS E"
    and "any_nonzero3 (sub3 (position r) (msi_position (minimalSurfaceInteraction surface)))"
    and "indirectPathLength
           > length3 (sub3 (position r) (msi_position (minimalSurfaceInteraction surface))) * 1.01"
  shows "position (virtualSample E c surface indirectPathLength r) =
           add3 (msi_position (minimalSurfaceInteraction surface))
             (scale3
                (normalize3 (sub3 (position r) (msi_position (minimalSurfaceInteraction surface))))
                indirectPathLength)
       \<and> position (virtualSample E c surface indirectPathLength r) =
           add3 (position r)
             (scale3
                (normalize3 (sub3 (position r) (msi_position (minimalSurfaceInteraction surface))))
                (indirectPathLength
                  - length3 (sub3 (position r) (msi_position (minimalSurfaceInteraction surface)))))
       \<and> normal (virtualSample E c surface indirectPathLength r) =
           neg3 (normalize3 (sub3 (position r) (msi_position (minimalSurfaceInteraction surface))))
       \<and> flagsAndVirtualFraction (virtualSample E c surface indirectPathLength r) =
           setVirtualFraction E
             ((indirectPathLength
                - length3 (sub3 (position r) (msi_position (minimalSurfaceInteraction surface))))
              * 1.2)
             (setVirtualFraction E 0 (flagsAndVirtualFraction r))"
proof -
  have pos: "position (virtualSample E c surface indirectPathLength r) =
           add3 (msi_position (minimalSurfaceInteraction surface))
             (scale3
                (normalize3 (sub3 (position r) (msi_position (minimalSurfaceInteraction surface))))
                indirectPathLength)"
    using assms by (simp add: virtualSample_def Let_def)
  moreover note extend_along_direction [OF assms(3), of indirectPathLength]
  moreover have "normal (virtualSample E c surface indirectPathLength r) =
           neg3 (normalize3 (sub3 (position r) (msi_position (minimalSurfaceInteraction surface))))"
    using assms by (simp add: virtualSample_def Let_def)
  moreover have "flagsAndVirtualFraction (virtualSample E c surface indirectPathLength r) =
           setVirtualFraction E
             ((indirectPathLength
                - length3 (sub3 (position r) (msi_position (minimalSurfaceInteraction surface))))
              * 1.2)
             (setVirtualFraction E 0 (flagsAndVirtualFraction r))"
    using assms by (simp add: virtualSample_def Let_def)
  ultimately show ?thesis by simp
qed

lemma direction_frame0:
  "sub3 (hit_position (ReSTIRGI_LoadHitGeometry buffers0 (50, 50)))
        (msi_position (minimalSurfaceInteraction surface0)) = (0, 0, 1)"
  by (simp add: buffers0_def surface0_def)

theorem virtual_sample_repositions_witness:
  "position (virtualSample env0 cb0 surface0 2
      \<lparr>position = hit_position (ReSTIRGI_LoadHitGeometry buffers0 (50, 50)),
       normal = (0, 0, - 1), radiance = (Finite 30, Finite 30, Finite 30),
       avgWeight = 1, M = 1, flagsAndVirtualFraction = 0\<rparr>) = (0.2, 0, - 3)
   \<and> normal (virtualSample env0 cb0 surface0 2
      \<lparr>position = hit_position (ReSTIRGI_LoadHitGeometry buffers0 (50, 50)),
       normal = (0, 0, - 1), radiance = (Finite 30, Finite 30, Finite 30),
       avgWeight = 1, M = 1, flagsAndVirtualFraction = 0\<rparr>) = (0, 0, - 1)"
proof -
  define r :: ReSTIRGI_Reservoir
    where "r = \<lparr>position = hit_position (ReSTIRGI_LoadHitGeometry buffers0 (50, 50)),
       normal = (0, 0, - 1), radiance = (Finite 30, Finite 30, Finite 30),
       avgWeight = 1, M = 1, flagsAndVirtualFraction = 0\<rparr>"
  have dir: "sub3 (position r) (msi_position (minimalSurfaceInteraction surface0)) = (0, 0, 1)"
    by (simp add: r_def direction_frame0)
  have h1: "0 < enableReSTIRGIVirtualSample cb0" by (simp add: cb0_def)
  have h2: "isotropicRoughness (opaqueSurfaceMaterialInteraction surface0)
           > RAB_RESTIR_GI_DELTA_ROUGHNESS env0"
    by (simp add: surface0_def env0_def)
  have h3: "any_nonzero3 (sub3 (position r) (msi_position (minimalSurfaceInteraction surface0)))"
    by (simp add: dir)
  have h4: "2 > length3 (sub3 (position r) (msi_position (minimalSurfaceInteraction surface0)))
                 * 1.01"
    by (simp add: dir)
  from virtual_sample_repositions [OF h1 h2 h3 h4, unfolded dir]
  show ?thesis
    unfolding r_def [symmetric]
    by (simp add: normalize3_def surface0_def)
qed

theorem virtual_sample_position_not_scaled_by_1_2:
  "0 < enableReSTIRGIVirtualSample cb0
   \<and> isotropicRoughness (opaqueSurfaceMaterialInteraction surface0)
       > RAB_RESTIR_GI_DELTA_ROUGHNESS env0
   \<and> any_nonzero3 (sub3 (hit_position (ReSTIRGI_LoadHitGeometry buffers0 (50, 50)))
                       (msi_position (minimalSurfaceInteraction surface0)))
   \<and> w (RestirGIRadiance buffers0 (50, 50))
       > length3 (sub3 (hit_position (ReSTIRGI_LoadHitGeometry buffers0 (50, 50)))
                       (msi_position (minimalSurfaceInteraction surface0))) * 1.01
   \<and> position (candidate env0 cb0 buffers0 (50, 50) surface0) = (0.2, 0, - 3)
   \<and> add3 (hit_position (ReSTIRGI_LoadHitGeometry buffers0 (50, 50)))
        (scale3
           (normalize3 (sub3 (hit_position (ReSTIRGI_LoadHitGeometry buffers0 (50, 50)))
                             (msi_position (minimalSurfaceInteraction surface0))))
           (1.2 * (w (RestirGIRadiance buffers0 (50, 50))
                    - length3 (sub3 (hit_position (ReSTIRGI_LoadHitGeometry buffers0 (50, 50)))
                                    (msi_position (minimalSurfaceInteraction surface0))))))
      = (0.2, 0, - 2.8)
   \<and> position (candidate env0 cb0 buffers0 (50, 50) surface0)
      \<noteq> add3 (hit_position (ReSTIRGI_LoadHitGeometry buffers0 (50, 50)))
          (scale3
             (normalize3 (sub3 (hit_position (ReSTIRGI_LoadHitGeometry buffers0 (50, 50)))
                               (msi_position (minimalSurfaceInteraction surface0))))
             (1.2 * (w (RestirGIRadiance buffers0 (50, 50))
                      - length3 (sub3 (hit_position (ReSTIRGI_LoadHitGeometry buffers0 (50, 50)))
                                      (msi_position (minimalSurfaceInteraction surface0))))))"
  unfolding direction_frame0 candidate_frame0
  by (simp add: cb0_def env0_def surface0_def buffers0_def normalize3_def)

subsection \<open>Reflection reprojection\<close>

lemma reflectionWeight_of_enabled:
  "0 < enableReSTIRGIReflectionReprojection c \<Longrightarrow>
   reflectionWeight_of E c surface =
     calcBt709Luminance E
        (evalOpaqueSchlickFresnel E (baseReflectivity (opaqueSurfaceMaterialInteraction surface))
           (dot3 (shadingNormal (opaqueSurfaceMaterialInteraction surface))
                 (viewDirection (minimalRayInteraction surface))))
      / (calcBt709Luminance E
           (evalOpaqueSchlickFresnel E (baseReflectivity (opaqueSurfaceMaterialInteraction surface))
              (dot3 (shadingNormal (opaqueSurfaceMaterialInteraction surface))
                    (viewDirection (minimalRayInteraction surface))))
         + calcBt709Luminance E (albedo (opaqueSurfaceMaterialInteraction surface)))
      * (1 - isotropicRoughness (opaqueSurfaceMaterialInteraction surface))"
  by (simp add: reflectionWeight_of_def Let_def)

text \<open>
  Claim C4. As stated, the third condition of the claim compares the naive with the
  reflection-based reprojection; the source compares the naive reprojection with the
  centre of the current pixel, before any reflection ray is traced (see the instance
  after the theorem, where the path is entered although both reprojections coincide).
  What holds: the reflection ray is traced exactly when reflection reprojection is
  enabled, the Fresnel luminance over the sum of Fresnel and albedo luminance, times one
  minus the roughness, exceeds 0.05, and \<^verbatim>\<open>prevPixelCenter\<close> lies more than one pixel
  from the centre of the current pixel; when it is not traced, the naive
  \<^verbatim>\<open>prevPixelCenter\<close> is used unchanged, the backup stays \<open>-1\<close>, and thresholds,
  sampler and state are as before.
\<close>

theorem reflection_path_entered_iff:
  "((rays (snd (reflectionReprojection E c surface thread_id prevPixelCenter depthThreshold
                 (reflectionWeight_of E c surface) rng s)) \<noteq> rays s)
      = (0 < enableReSTIRGIReflectionReprojection c
         \<and> calcBt709Luminance E
              (evalOpaqueSchlickFresnel E (baseReflectivity (opaqueSurfaceMaterialInteraction surface))
                 (dot3 (shadingNormal (opaqueSurfaceMaterialInteraction surface))
                       (viewDirection (minimalRayInteraction surface))))
            / (calcBt709Luminance E
                 (evalOpaqueSchlickFresnel E
                    (baseReflectivity (opaqueSurfaceMaterialInteraction surface))
                    (dot3 (shadingNormal (opaqueSurfaceMaterialInteraction surface))
                          (viewDirection (minimalRayInteraction surface))))
               + calcBt709Luminance E (albedo (opaqueSurfaceMaterialInteraction surface)))
            * (1 - isotropicRoughness (opaqueSurfaceMaterialInteraction surface)) > 0.05
         \<and> length2 (sub2 prevPixelCenter
                       (real (fst thread_id) + 0.5, real (snd thread_id) + 0.5)) > 1))
   \<and> (rays (snd (reflectionReprojection E c surface thread_id prevPixelCenter depthThreshold
                 (reflectionWeight_of E c surface) rng s)) = rays s
      \<longrightarrow> reflectionReprojection E c surface thread_id prevPixelCenter depthThreshold
             (reflectionWeight_of E c surface) rng s =
           (\<lparr>r_prevPixelCenter = prevPixelCenter,
             r_prevBackupPixelCenter = (- 1, - 1),
             r_depthThreshold = depthThreshold,
             r_discardEnlargedPixels = enableReSTIRGIDiscardEnlargedPixels c,
             r_reflectionReprojectionWeight = 0,
             r_rng = rng\<rparr>, s))"
proof (cases "0 < enableReSTIRGIReflectionReprojection c")
  case True
  show ?thesis
    unfolding reflectionWeight_of_enabled [OF True, symmetric]
    using True
    by (simp add: reflectionReprojection_def Let_def split: prod.splits)
next
  case False
  then show ?thesis
    by (simp add: reflectionReprojection_def Let_def split: prod.splits)
qed

theorem reflection_path_entered_iff_witness:
  "reflectionReprojection env0 cb0 surface0 (60, 50) (60, 50) (0.01, 0.01)
     (reflectionWeight_of env0 cb0 surface0) 0 state0 =
   (\<lparr>r_prevPixelCenter = (60, 50),
     r_prevBackupPixelCenter = (- 1, - 1),
     r_depthThreshold = (0.01, 0.01),
     r_discardEnlargedPixels = True,
     r_reflectionReprojectionWeight = 0,
     r_rng = 0\<rparr>, state0)"
proof -
  note inst = reflection_path_entered_iff
    [where E = env0 and c = cb0 and surface = surface0 and thread_id = "(60, 50)"
       and prevPixelCenter = "(60, 50)" and depthThreshold = "(0.01, 0.01)" and rng = 0
       and s = state0]
  have near: "\<not> length2 (sub2 (60, 50) (real (fst (60::nat, 50::nat)) + 0.5,
                                       real (snd (60::nat, 50::nat)) + 0.5)) > 1"
    by simp
  from inst near
  have "rays (snd (reflectionReprojection env0 cb0 surface0 (60, 50) (60, 50) (0.01, 0.01)
                 (reflectionWeight_of env0 cb0 surface0) 0 state0)) = rays state0"
    by blast
  with inst show ?thesis
    by (simp add: cb0_def)
qed

theorem reflection_path_entered_without_divergence:
  "rays (snd (reflectionReprojection env0 cb0 surface0 (50, 50)
               (motionPrevPixelCenter env0 (camera cb0) surface0 (0.2, 0, 0))
               (depthThreshold_of surface0) (reflectionWeight_of env0 cb0 surface0) 0 state0))
     \<noteq> rays state0
   \<and> length2 (sub2 (prevReflectionCenter_of env0 (camera cb0) surface0)
                (motionPrevPixelCenter env0 (camera cb0) surface0 (0.2, 0, 0))) = 0
   \<and> \<not> length2 (sub2 (prevReflectionCenter_of env0 (camera cb0) surface0)
                  (motionPrevPixelCenter env0 (camera cb0) surface0 (0.2, 0, 0))) > 1"
  unfolding motionPrevPixelCenter_frame0 prevReflectionCenter_frame0 reflectionWeight_frame0
  by (simp add: reflectionReprojection_def Let_def cb0_def state0_def split: prod.splits)

text \<open>
  Claim C5. Inside the reflection-reprojection path, when the distance between the
  reflection-based and the naive reprojection is at or above
  \<^verbatim>\<open>restirGIReflectionMinParallax\<close>, the next number of the random sampler is drawn and
  the reflection-based target is selected exactly when that number is below the
  reflection weight (for a uniform number in the unit interval, with probability equal
  to the weight). On selection \<^verbatim>\<open>depthThreshold.x\<close> becomes 0.25 and
  \<^verbatim>\<open>discardEnlargedPixels\<close> false; otherwise target, thresholds and flag are kept. In
  both cases the naive reprojection is the backup coordinate. Outside the path the
  backup coordinate is \<open>-1\<close>.
\<close>

theorem reflection_target_selected_by_random_number:
  "(0 < enableReSTIRGIReflectionReprojection c \<and> reflectionWeight > 0.05
      \<and> length2 (sub2 prevPixelCenter
                    (real (fst thread_id) + 0.5, real (snd thread_id) + 0.5)) > 1
      \<and> restirGIReflectionMinParallax c
           \<le> length2 (sub2 (prevReflectionCenter_of E (camera c) surface) prevPixelCenter)
     \<longrightarrow> fst (reflectionReprojection E c surface thread_id prevPixelCenter depthThreshold
                reflectionWeight rng s) =
           (if fst (RAB_GetNextRandom E rng) < reflectionWeight then
              \<lparr>r_prevPixelCenter = prevReflectionCenter_of E (camera c) surface,
               r_prevBackupPixelCenter = prevPixelCenter,
               r_depthThreshold = (0.25, snd depthThreshold),
               r_discardEnlargedPixels = False,
               r_reflectionReprojectionWeight = reflectionWeight,
               r_rng = snd (RAB_GetNextRandom E rng)\<rparr>
            else
              \<lparr>r_prevPixelCenter = prevPixelCenter,
               r_prevBackupPixelCenter = prevPixelCenter,
               r_depthThreshold = depthThreshold,
               r_discardEnlargedPixels = enableReSTIRGIDiscardEnlargedPixels c,
               r_reflectionReprojectionWeight = reflectionWeight,
               r_rng = snd (RAB_GetNextRandom E rng)\<rparr>))
   \<and> (\<not> (0 < enableReSTIRGIReflectionReprojection c \<and> reflectionWeight > 0.05
          \<and> length2 (sub2 prevPixelCenter
                        (real (fst thread_id) + 0.5, real (snd thread_id) + 0.5)) > 1)
     \<longrightarrow> r_prevBackupPixelCenter
           (fst (reflectionReprojection E c surface thread_id prevPixelCenter depthThreshold
                   reflectionWeight rng s)) = (- 1, - 1))"
  by (simp add: reflectionReprojection_def Let_def split: prod.splits)

theorem reflection_target_selected_by_random_number_witness:
  "fst (reflectionReprojection env0 cb0
          (surface0\<lparr>minimalRayInteraction := \<lparr>viewDirection = (- 0.02, 0, - 1)\<rparr>\<rparr>)
          (50, 50) (60, 50) (0.01, 0.01) 0.25 0 state0) =
     \<lparr>r_prevPixelCenter = (65, 50),
      r_prevBackupPixelCenter = (60, 50),
      r_depthThreshold = (0.25, 0.01),
      r_discardEnlargedPixels = False,
      r_reflectionReprojectionWeight = 0.25,
      r_rng = 1\<rparr>
   \<and> r_prevBackupPixelCenter
        (fst (reflectionReprojection env0 cb0 surface0 (60, 50) (60, 50) (0.01, 0.01) 0.25 0
                state0)) = (- 1, - 1)"
proof -
  have refl: "prevReflectionCenter_of env0 (camera cb0)
        (surface0\<lparr>minimalRayInteraction := \<lparr>viewDirection = (- 0.02, 0, - 1)\<rparr>\<rparr>) = (65, 50)"
    by (simp add: prevReflectionCenter_of_def screenPosition_def env0_def cb0_def surface0_def
          identity4_def Let_def)
  have far: "restirGIReflectionMinParallax cb0 \<le> length2 (sub2 (65, 50) (60, 50))"
    by (simp add: cb0_def sqrt_25)
  have enabled: "0 < enableReSTIRGIReflectionReprojection cb0"
    by (simp add: cb0_def)
  have moved: "length2 (sub2 (60, 50) (real (fst (50::nat, 50::nat)) + 0.5,
                                     real (snd (50::nat, 50::nat)) + 0.5)) > 1"
    by simp
  have near: "\<not> length2 (sub2 (60, 50) (real (fst (60::nat, 50::nat)) + 0.5,
                                       real (snd (60::nat, 50::nat)) + 0.5)) > 1"
    by simp
  have u: "RAB_GetNextRandom env0 0 = (0, 1)"
    by (simp add: env0_def)
  from reflection_target_selected_by_random_number
    [where c = cb0 and reflectionWeight = "0.25" and prevPixelCenter = "(60, 50)"
       and thread_id = "(50, 50)" and E = env0
       and surface = "surface0\<lparr>minimalRayInteraction := \<lparr>viewDirection = (- 0.02, 0, - 1)\<rparr>\<rparr>"
       and depthThreshold = "(0.01, 0.01)" and rng = 0 and s = state0, unfolded refl u]
    far enabled moved
  have selected: "fst (reflectionReprojection env0 cb0
          (surface0\<lparr>minimalRayInteraction := \<lparr>viewDirection = (- 0.02, 0, - 1)\<rparr>\<rparr>)
          (50, 50) (60, 50) (0.01, 0.01) 0.25 0 state0) =
     \<lparr>r_prevPixelCenter = (65, 50),
      r_prevBackupPixelCenter = (60, 50),
      r_depthThreshold = (0.25, 0.01),
      r_discardEnlargedPixels = False,
      r_reflectionReprojectionWeight = 0.25,
      r_rng = 1\<rparr>"
    by simp
  from reflection_target_selected_by_random_number
    [where c = cb0 and reflectionWeight = "0.25" and prevPixelCenter = "(60, 50)"
       and thread_id = "(60, 50)" and E = env0 and surface = surface0
       and depthThreshold = "(0.01, 0.01)" and rng = 0 and s = state0]
    near
  have "r_prevBackupPixelCenter
        (fst (reflectionReprojection env0 cb0 surface0 (60, 50) (60, 50) (0.01, 0.01) 0.25 0
                state0)) = (- 1, - 1)"
    by blast
  with selected show ?thesis by simp
qed

subsection \<open>Radiance of the candidate\<close>

lemma luminance_scale3:
  "spec_calcBt709Luminance (scale3 v k) = k * spec_calcBt709Luminance v"
  by (cases v) (simp add: algebra_simps)

lemma fireflyFiltering_bounded:
  assumes "0 \<le> maxLuminance"
  shows "\<exists>v. spec_fireflyFiltering val maxLuminance = finite3 v
             \<and> spec_calcBt709Luminance v \<le> maxLuminance"
proof (cases "spec_calcBt709Luminance val > maxLuminance")
  case True
  with assms have nz: "spec_calcBt709Luminance val \<noteq> 0" by simp
  then have "maxLuminance / spec_calcBt709Luminance val * spec_calcBt709Luminance val
      = maxLuminance"
    by simp
  then have "spec_calcBt709Luminance (scale3 val (maxLuminance / spec_calcBt709Luminance val))
      \<le> maxLuminance"
    by (simp add: luminance_scale3)
  moreover from True nz
  have "spec_fireflyFiltering val maxLuminance =
      finite3 (scale3 val (maxLuminance / spec_calcBt709Luminance val))"
    by (simp add: spec_fireflyFiltering_def Let_def)
  ultimately show ?thesis by blast
next
  case False
  then have "spec_fireflyFiltering val maxLuminance = finite3 val"
    by (simp add: spec_fireflyFiltering_def Let_def)
  with False show ?thesis
    by (intro exI [of _ val]) simp
qed

lemma fireflyFiltering_zero:
  "0 \<le> m \<Longrightarrow> spec_fireflyFiltering (0, 0, 0) m = (Finite 0, Finite 0, Finite 0)"
  by (simp add: spec_fireflyFiltering_def Let_def)

lemma sanitize_non_finite: "\<not> all_finite val \<Longrightarrow> spec_sanitize val d = d"
  by (cases "(val, d)" rule: spec_sanitize.cases) auto

text \<open>
  Claim C6. As stated, the claim bounds the luminance of every candidate radiance by 30
  times the configured threshold and has every component finite. For a negative
  threshold and a pixel without a primary sample the radiance handed to the firefly
  filter is zero, its luminance \<open>0\<close> is above the limit, and scaling it down divides by
  that luminance: the result is not finite (see the instance after the theorem). With
  \<^verbatim>\<open>sanitize\<close> and \<^verbatim>\<open>fireflyFiltering\<close> as the specification describes them
  and a threshold that is not negative, the claim holds: every component of the
  candidate's radiance is finite and its luminance is at most 30 times the threshold;
  the radiance is zero when the pixel holds no primary selected integration sample, and
  also when the texel has a NaN or Inf component.
\<close>

theorem candidate_radiance_bounded:
  assumes san: "sanitize E = spec_sanitize"
    and ff: "fireflyFiltering E = spec_fireflyFiltering"
    and thr: "0 \<le> fireflyFilteringLuminanceThreshold c"
  shows "(\<exists>v. radiance (candidate E c B px surface) = finite3 v
            \<and> spec_calcBt709Luminance v \<le> fireflyFilteringLuminanceThreshold c * 30)
       \<and> (\<not> primarySelectedIntegrationSurface (geometryFlagsReadFromGBuffer B px)
            \<longrightarrow> radiance (candidate E c B px surface) = (Finite 0, Finite 0, Finite 0))
       \<and> (\<not> all_finite (rgb (RestirGIRadiance B px))
            \<longrightarrow> radiance (candidate E c B px surface) = (Finite 0, Finite 0, Finite 0))"
proof -
  from thr have m: "0 \<le> fireflyFilteringLuminanceThreshold c * 30" by simp
  have "\<exists>v. radiance (candidate E c B px surface) = finite3 v
            \<and> spec_calcBt709Luminance v \<le> fireflyFilteringLuminanceThreshold c * 30"
    unfolding radiance_candidate
    using fireflyFiltering_bounded [OF m]
    by (simp add: loadRadiance_def Let_def ff split: prod.splits)
  moreover have "radiance (candidate E c B px surface) = (Finite 0, Finite 0, Finite 0)"
    if "\<not> primarySelectedIntegrationSurface (geometryFlagsReadFromGBuffer B px)"
    unfolding radiance_candidate
    using that fireflyFiltering_zero [OF m]
    by (simp add: loadRadiance_def Let_def ff)
  moreover have "radiance (candidate E c B px surface) = (Finite 0, Finite 0, Finite 0)"
    if "\<not> all_finite (rgb (RestirGIRadiance B px))"
    unfolding radiance_candidate
    using that fireflyFiltering_zero [OF m]
    by (simp add: loadRadiance_def Let_def san ff sanitize_non_finite)
  ultimately show ?thesis by blast
qed

theorem candidate_radiance_bounded_witness:
  "radiance (candidate env0 cb0 buffers0 (50, 50) surface0) = (Finite 30, Finite 30, Finite 30)
   \<and> spec_calcBt709Luminance (30, 30, 30) \<le> 30
   \<and> radiance (candidate env0 cb0
        (buffers0\<lparr>RestirGIRadiance := (\<lambda>px. \<lparr>rgb = (Finite 1, NonFinite, Finite 1), w = 2\<rparr>)\<rparr>)
        (50, 50) surface0) = (Finite 0, Finite 0, Finite 0)"
proof -
  have san: "sanitize env0 = spec_sanitize" by (simp add: env0_def)
  have ff: "fireflyFiltering env0 = spec_fireflyFiltering" by (simp add: env0_def)
  have thr: "0 \<le> fireflyFilteringLuminanceThreshold cb0" by (simp add: cb0_def)
  have limit: "fireflyFilteringLuminanceThreshold cb0 * 30 = 30" by (simp add: cb0_def)
  from candidate_radiance_bounded [OF san ff thr, of buffers0 "(50, 50)" surface0]
  obtain v where v: "radiance (candidate env0 cb0 buffers0 (50, 50) surface0) = finite3 v"
    and bound: "spec_calcBt709Luminance v \<le> 30"
    unfolding limit by blast
  from v have "v = (30, 30, 30)"
    by (cases v) (simp add: candidate_frame0)
  with v bound have first:
    "radiance (candidate env0 cb0 buffers0 (50, 50) surface0) = (Finite 30, Finite 30, Finite 30)
     \<and> spec_calcBt709Luminance (30, 30, 30) \<le> 30"
    by simp
  have "radiance (candidate env0 cb0
        (buffers0\<lparr>RestirGIRadiance := (\<lambda>px. \<lparr>rgb = (Finite 1, NonFinite, Finite 1), w = 2\<rparr>)\<rparr>)
        (50, 50) surface0) = (Finite 0, Finite 0, Finite 0)"
    by (rule mp [OF conjunct2 [OF conjunct2 [OF candidate_radiance_bounded [OF san ff thr]]]])
       simp
  with first show ?thesis by blast
qed

theorem candidate_radiance_not_finite_for_negative_threshold:
  "fireflyFilteringLuminanceThreshold (cb0\<lparr>fireflyFilteringLuminanceThreshold := - 1\<rparr>) * 30
     = - 30
   \<and> radiance (candidate env0 (cb0\<lparr>fireflyFilteringLuminanceThreshold := - 1\<rparr>)
          (buffers0\<lparr>geometryFlagsReadFromGBuffer :=
             (\<lambda>px. \<lparr>primarySelectedIntegrationSurface = False\<rparr>)\<rparr>) (50, 50) surface0)
     = (NonFinite, NonFinite, NonFinite)
   \<and> \<not> all_finite
       (radiance (candidate env0 (cb0\<lparr>fireflyFilteringLuminanceThreshold := - 1\<rparr>)
          (buffers0\<lparr>geometryFlagsReadFromGBuffer :=
             (\<lambda>px. \<lparr>primarySelectedIntegrationSurface = False\<rparr>)\<rparr>) (50, 50) surface0))"
  unfolding radiance_candidate
  by (simp add: loadRadiance_def Let_def env0_def spec_fireflyFiltering_def buffers0_def)

subsection \<open>Portals\<close>

text \<open>
  Claim C7. For a hit tagged with a portal id (an id other than
  \<^verbatim>\<open>RESTIR_GI_INVALID_INDIRECT_LIGHT_PORTAL_ID\<close>) whose opposing portal entry is
  inactive, the portal block leaves the sample as it is, position and normal as loaded
  from the hit geometry; the block changes the sample only when the opposing portal is
  active, and then by the teleport matrix. Through the whole candidate builder position
  and normal stay as loaded when, in addition, the virtual sample is switched off; and
  with or without the virtual sample they are those of the candidate built from the same
  hit without a portal tag.
\<close>

theorem inactive_portal_keeps_hit_geometry:
  "(portalID \<noteq> RESTIR_GI_INVALID_INDIRECT_LIGHT_PORTAL_ID E
      \<and> \<not> rayPortalHitInfoIsActive E (rayPortalHitInfos c (getOpposingRayPortalIndex E portalID))
     \<longrightarrow> transformAcrossPortal E c portalID r = r)
   \<and> (transformAcrossPortal E c portalID r \<noteq> r
     \<longrightarrow> portalID \<noteq> RESTIR_GI_INVALID_INDIRECT_LIGHT_PORTAL_ID E
         \<and> rayPortalHitInfoIsActive E (rayPortalHitInfos c (getOpposingRayPortalIndex E portalID)))
   \<and> (portalID \<noteq> RESTIR_GI_INVALID_INDIRECT_LIGHT_PORTAL_ID E
      \<and> rayPortalHitInfoIsActive E (rayPortalHitInfos c (getOpposingRayPortalIndex E portalID))
     \<longrightarrow> transformAcrossPortal E c portalID r =
           r\<lparr>position :=
                xyz (mul44
                  (unpack E (encodedPortalToOpposingPortalDirection
                     (rayPortalHitInfos c (getOpposingRayPortalIndex E portalID))))
                  (vec4_of (position r) 1)),
              normal :=
                mul33
                  (mat3_of (unpack E (encodedPortalToOpposingPortalDirection
                     (rayPortalHitInfos c (getOpposingRayPortalIndex E portalID)))))
                  (normal r)\<rparr>)
   \<and> (hit_portalID (ReSTIRGI_LoadHitGeometry B px) \<noteq> RESTIR_GI_INVALID_INDIRECT_LIGHT_PORTAL_ID E
      \<and> \<not> rayPortalHitInfoIsActive E
            (rayPortalHitInfos c
               (getOpposingRayPortalIndex E (hit_portalID (ReSTIRGI_LoadHitGeometry B px))))
      \<and> enableReSTIRGIVirtualSample c = 0
     \<longrightarrow> position (candidate E c B px surface) = hit_position (ReSTIRGI_LoadHitGeometry B px)
         \<and> normal (candidate E c B px surface) = hit_normal (ReSTIRGI_LoadHitGeometry B px))
   \<and> (hit_portalID (ReSTIRGI_LoadHitGeometry B px) \<noteq> RESTIR_GI_INVALID_INDIRECT_LIGHT_PORTAL_ID E
      \<and> \<not> rayPortalHitInfoIsActive E
            (rayPortalHitInfos c
               (getOpposingRayPortalIndex E (hit_portalID (ReSTIRGI_LoadHitGeometry B px))))
     \<longrightarrow> position (candidate E c B px surface) =
           position (candidate E c
             (B\<lparr>ReSTIRGI_LoadHitGeometry :=
                  (\<lambda>p. (ReSTIRGI_LoadHitGeometry B p)
                          \<lparr>hit_portalID := RESTIR_GI_INVALID_INDIRECT_LIGHT_PORTAL_ID E\<rparr>)\<rparr>)
             px surface)
         \<and> normal (candidate E c B px surface) =
           normal (candidate E c
             (B\<lparr>ReSTIRGI_LoadHitGeometry :=
                  (\<lambda>p. (ReSTIRGI_LoadHitGeometry B p)
                          \<lparr>hit_portalID := RESTIR_GI_INVALID_INDIRECT_LIGHT_PORTAL_ID E\<rparr>)\<rparr>)
             px surface))"
  by (simp add: transformAcrossPortal_def candidate_def loadRadiance_def virtualSample_def
        Let_def split: prod.splits)



theorem inactive_portal_keeps_hit_geometry_witness:
  "transformAcrossPortal env0 cb0 0
     \<lparr>position = (0.2, 0, - 4), normal = (0, 0, - 1), radiance = (Finite 30, Finite 30, Finite 30),
      avgWeight = 1, M = 1, flagsAndVirtualFraction = 0\<rparr>
   = \<lparr>position = (0.2, 0, - 4), normal = (0, 0, - 1), radiance = (Finite 30, Finite 30, Finite 30),
      avgWeight = 1, M = 1, flagsAndVirtualFraction = 0\<rparr>
   \<and> position (candidate env0 (cb0\<lparr>enableReSTIRGIVirtualSample := 0\<rparr>)
        (buffers0\<lparr>ReSTIRGI_LoadHitGeometry :=
           (\<lambda>px. \<lparr>hit_position = (0.2, 0, - 4), hit_normal = (0, 0, - 1), hit_portalID = 0\<rparr>)\<rparr>)
        (50, 50) surface0) = (0.2, 0, - 4)
   \<and> normal (candidate env0 (cb0\<lparr>enableReSTIRGIVirtualSample := 0\<rparr>)
        (buffers0\<lparr>ReSTIRGI_LoadHitGeometry :=
           (\<lambda>px. \<lparr>hit_position = (0.2, 0, - 4), hit_normal = (0, 0, - 1), hit_portalID = 0\<rparr>)\<rparr>)
        (50, 50) surface0) = (0, 0, - 1)"
proof -
  define B where "B = buffers0\<lparr>ReSTIRGI_LoadHitGeometry :=
           (\<lambda>px. \<lparr>hit_position = (0.2, 0, - 4), hit_normal = (0, 0, - 1), hit_portalID = 0\<rparr>)\<rparr>"
  define c where "c = cb0\<lparr>enableReSTIRGIVirtualSample := 0\<rparr>"
  have hit: "ReSTIRGI_LoadHitGeometry B (50, 50) =
      \<lparr>hit_position = (0.2, 0, - 4), hit_normal = (0, 0, - 1), hit_portalID = 0\<rparr>"
    by (simp add: B_def)
  have invalid: "RESTIR_GI_INVALID_INDIRECT_LIGHT_PORTAL_ID env0 = 255"
    by (simp add: env0_def)
  have inactive: "\<not> rayPortalHitInfoIsActive env0 (rayPortalHitInfos cb0 i)"
    "\<not> rayPortalHitInfoIsActive env0 (rayPortalHitInfos c i)" for i
    by (simp_all add: env0_def cb0_def c_def)
  have off: "enableReSTIRGIVirtualSample c = 0"
    by (simp add: c_def)
  have block: "transformAcrossPortal env0 cb0 0
     \<lparr>position = (0.2, 0, - 4), normal = (0, 0, - 1), radiance = (Finite 30, Finite 30, Finite 30),
      avgWeight = 1, M = 1, flagsAndVirtualFraction = 0\<rparr>
   = \<lparr>position = (0.2, 0, - 4), normal = (0, 0, - 1), radiance = (Finite 30, Finite 30, Finite 30),
      avgWeight = 1, M = 1, flagsAndVirtualFraction = 0\<rparr>"
    by (rule mp [OF conjunct1 [OF inactive_portal_keeps_hit_geometry]])
       (simp add: invalid inactive)
  have "position (candidate env0 c B (50, 50) surface0)
          = hit_position (ReSTIRGI_LoadHitGeometry B (50, 50))
      \<and> normal (candidate env0 c B (50, 50) surface0)
          = hit_normal (ReSTIRGI_LoadHitGeometry B (50, 50))"
    by (rule mp [OF conjunct1 [OF conjunct2 [OF conjunct2 [OF conjunct2
          [OF inactive_portal_keeps_hit_geometry]]]]])
       (simp add: hit invalid inactive off)
  then have "position (candidate env0 c B (50, 50) surface0) = (0.2, 0, - 4)
      \<and> normal (candidate env0 c B (50, 50) surface0) = (0, 0, - 1)"
    by (simp add: hit)
  with block show ?thesis
    by (simp only: B_def c_def simp_thms)
qed

subsection \<open>Visibility revalidation\<close>

text \<open>
  Claim C8. The visibility block traces its sample-visibility ray exactly when the
  bias-correction mode is \<^verbatim>\<open>RTXDI_BIAS_CORRECTION_PAIRWISE_RAY_TRACED\<close> and the
  resampling returned \<^verbatim>\<open>isGBufferSimilar = true\<close> and \<^verbatim>\<open>isInitialSample = false\<close>.
  It then clears the occluded-sample flag of the merged reservoir and sets it again when
  the sample is not visible. Under every other configuration the block returns the
  reservoir and the state as they were, so the flag is untouched. The same holds of the
  entry point: for a pixel inside the resolution with a valid surface, \<^verbatim>\<open>main\<close>
  adds the sample-visibility ray to the rays traced up to the resampling exactly under
  that condition; with temporal reuse enabled, the reservoir written to the temporal
  output page is then the resampled reservoir with the flag cleared and set from the
  trace, and under every other configuration it is the reservoir the resampling returned.
\<close>

theorem visibility_revalidation_runs_iff:
  "((rays (snd (visibilityRevalidation E c surface r isGBufferSimilar isInitialSample s))
       \<noteq> rays s)
      = (reSTIRGIBiasCorrectionMode c = RTXDI_BIAS_CORRECTION_PAIRWISE_RAY_TRACED E
         \<and> isGBufferSimilar \<and> \<not> isInitialSample))
   \<and> (reSTIRGIBiasCorrectionMode c = RTXDI_BIAS_CORRECTION_PAIRWISE_RAY_TRACED E
        \<and> isGBufferSimilar \<and> \<not> isInitialSample
     \<longrightarrow> visibilityRevalidation E c surface r isGBufferSimilar isInitialSample s =
           (r\<lparr>flagsAndVirtualFraction :=
                setFlag E
                  (if RAB_TraceGISampleVisibility E surface surface r (numActiveRayPortals c)
                   then 0 else RESTIR_GI_FLAG_OCCLUDED_SAMPLE E)
                  (clearFlag E (RESTIR_GI_FLAG_OCCLUDED_SAMPLE E) (flagsAndVirtualFraction r))\<rparr>,
            s\<lparr>rays := rays s @ [GISampleVisibility r]\<rparr>))
   \<and> (\<not> (reSTIRGIBiasCorrectionMode c = RTXDI_BIAS_CORRECTION_PAIRWISE_RAY_TRACED E
           \<and> isGBufferSimilar \<and> \<not> isInitialSample)
     \<longrightarrow> visibilityRevalidation E c surface r isGBufferSimilar isInitialSample s = (r, s))
   \<and> (fst thread_id < fst (resolution (camera c))
        \<and> snd thread_id < snd (resolution (camera c))
        \<and> RAB_IsSurfaceValid E (RAB_GetGBufferSurface B thread_id)
        \<and> enableReSTIRGITemporalReuse c
     \<longrightarrow> (case temporalResampling E c B thread_id (RAB_GetGBufferSurface B thread_id)
                  (candidate E c B thread_id (RAB_GetGBufferSurface B thread_id))
                  (RAB_StoreGIReservoir
                     (candidate E c B thread_id (RAB_GetGBufferSurface B thread_id))
                     thread_id (ReSTIRGI_GetInitSamplePage E) s0) of
            ((resultReservoir, similar, initial), reprojection, s1) \<Rightarrow>
              \<not> (reSTIRGIBiasCorrectionMode c = RTXDI_BIAS_CORRECTION_PAIRWISE_RAY_TRACED E
                  \<and> similar \<and> \<not> initial)
              \<longrightarrow> reservoirs (main E c B thread_id s0)
                    (ReSTIRGI_GetTemporalOutputPage E, thread_id) = Some resultReservoir))
   \<and> (fst thread_id < fst (resolution (camera c))
        \<and> snd thread_id < snd (resolution (camera c))
        \<and> RAB_IsSurfaceValid E (RAB_GetGBufferSurface B thread_id)
        \<and> enableReSTIRGITemporalReuse c
     \<longrightarrow> (case temporalResampling E c B thread_id (RAB_GetGBufferSurface B thread_id)
                  (candidate E c B thread_id (RAB_GetGBufferSurface B thread_id))
                  (RAB_StoreGIReservoir
                     (candidate E c B thread_id (RAB_GetGBufferSurface B thread_id))
                     thread_id (ReSTIRGI_GetInitSamplePage E) s0) of
            ((resultReservoir, similar, initial), reprojection, s1) \<Rightarrow>
              reSTIRGIBiasCorrectionMode c = RTXDI_BIAS_CORRECTION_PAIRWISE_RAY_TRACED E
                  \<and> similar \<and> \<not> initial
              \<longrightarrow> reservoirs (main E c B thread_id s0)
                    (ReSTIRGI_GetTemporalOutputPage E, thread_id) =
                  Some (resultReservoir\<lparr>flagsAndVirtualFraction :=
                    setFlag E
                      (if RAB_TraceGISampleVisibility E (RAB_GetGBufferSurface B thread_id)
                            (RAB_GetGBufferSurface B thread_id) resultReservoir
                            (numActiveRayPortals c)
                       then 0 else RESTIR_GI_FLAG_OCCLUDED_SAMPLE E)
                      (clearFlag E (RESTIR_GI_FLAG_OCCLUDED_SAMPLE E)
                         (flagsAndVirtualFraction resultReservoir))\<rparr>)))
   \<and> (fst thread_id < fst (resolution (camera c))
        \<and> snd thread_id < snd (resolution (camera c))
        \<and> RAB_IsSurfaceValid E (RAB_GetGBufferSurface B thread_id)
     \<longrightarrow> (case temporalResampling E c B thread_id (RAB_GetGBufferSurface B thread_id)
                  (candidate E c B thread_id (RAB_GetGBufferSurface B thread_id))
                  (RAB_StoreGIReservoir
                     (candidate E c B thread_id (RAB_GetGBufferSurface B thread_id))
                     thread_id (ReSTIRGI_GetInitSamplePage E) s0) of
            ((resultReservoir, similar, initial), reprojection, s1) \<Rightarrow>
              rays (main E c B thread_id s0) =
                (if reSTIRGIBiasCorrectionMode c = RTXDI_BIAS_CORRECTION_PAIRWISE_RAY_TRACED E
                    \<and> similar \<and> \<not> initial
                 then rays s1 @ [GISampleVisibility resultReservoir]
                 else rays s1)))"
proof (intro conjI impI)
  show "(rays (snd (visibilityRevalidation E c surface r isGBufferSimilar isInitialSample s))
       \<noteq> rays s)
      = (reSTIRGIBiasCorrectionMode c = RTXDI_BIAS_CORRECTION_PAIRWISE_RAY_TRACED E
         \<and> isGBufferSimilar \<and> \<not> isInitialSample)"
    by (simp add: visibilityRevalidation_def Let_def)
next
  assume "reSTIRGIBiasCorrectionMode c = RTXDI_BIAS_CORRECTION_PAIRWISE_RAY_TRACED E
        \<and> isGBufferSimilar \<and> \<not> isInitialSample"
  then show "visibilityRevalidation E c surface r isGBufferSimilar isInitialSample s =
           (r\<lparr>flagsAndVirtualFraction :=
                setFlag E
                  (if RAB_TraceGISampleVisibility E surface surface r (numActiveRayPortals c)
                   then 0 else RESTIR_GI_FLAG_OCCLUDED_SAMPLE E)
                  (clearFlag E (RESTIR_GI_FLAG_OCCLUDED_SAMPLE E) (flagsAndVirtualFraction r))\<rparr>,
            s\<lparr>rays := rays s @ [GISampleVisibility r]\<rparr>)"
    by (simp add: visibilityRevalidation_def Let_def)
next
  assume "\<not> (reSTIRGIBiasCorrectionMode c = RTXDI_BIAS_CORRECTION_PAIRWISE_RAY_TRACED E
           \<and> isGBufferSimilar \<and> \<not> isInitialSample)"
  then show "visibilityRevalidation E c surface r isGBufferSimilar isInitialSample s = (r, s)"
    by (auto simp: visibilityRevalidation_def)
next
  assume h: "fst thread_id < fst (resolution (camera c))
        \<and> snd thread_id < snd (resolution (camera c))
        \<and> RAB_IsSurfaceValid E (RAB_GetGBufferSurface B thread_id)
        \<and> enableReSTIRGITemporalReuse c"
  then have out: "reservoirs (main E c B thread_id s0)
        (ReSTIRGI_GetTemporalOutputPage E, thread_id) =
     Some
       (let surface = RAB_GetGBufferSurface B thread_id;
            initialSample = candidate E c B thread_id surface;
            T = temporalResampling E c B thread_id surface initialSample
                  (RAB_StoreGIReservoir initialSample thread_id (ReSTIRGI_GetInitSamplePage E) s0)
        in if \<not> enableReSTIRGITemporalReuse c then initialSample
           else fst (visibilityRevalidation E c surface (fst (fst T)) (fst (snd (fst T)))
                       (snd (snd (fst T))) (snd (snd T))))"
    by (intro main_output_page) simp_all
  show "case temporalResampling E c B thread_id (RAB_GetGBufferSurface B thread_id)
                  (candidate E c B thread_id (RAB_GetGBufferSurface B thread_id))
                  (RAB_StoreGIReservoir
                     (candidate E c B thread_id (RAB_GetGBufferSurface B thread_id))
                     thread_id (ReSTIRGI_GetInitSamplePage E) s0) of
            ((resultReservoir, similar, initial), reprojection, s1) \<Rightarrow>
              \<not> (reSTIRGIBiasCorrectionMode c = RTXDI_BIAS_CORRECTION_PAIRWISE_RAY_TRACED E
                  \<and> similar \<and> \<not> initial)
              \<longrightarrow> reservoirs (main E c B thread_id s0)
                    (ReSTIRGI_GetTemporalOutputPage E, thread_id) = Some resultReservoir"
    unfolding out using h
    by (auto simp: Let_def visibilityRevalidation_def split: prod.splits)
next
  assume h: "fst thread_id < fst (resolution (camera c))
        \<and> snd thread_id < snd (resolution (camera c))
        \<and> RAB_IsSurfaceValid E (RAB_GetGBufferSurface B thread_id)
        \<and> enableReSTIRGITemporalReuse c"
  then have out: "reservoirs (main E c B thread_id s0)
        (ReSTIRGI_GetTemporalOutputPage E, thread_id) =
     Some
       (let surface = RAB_GetGBufferSurface B thread_id;
            initialSample = candidate E c B thread_id surface;
            T = temporalResampling E c B thread_id surface initialSample
                  (RAB_StoreGIReservoir initialSample thread_id (ReSTIRGI_GetInitSamplePage E) s0)
        in if \<not> enableReSTIRGITemporalReuse c then initialSample
           else fst (visibilityRevalidation E c surface (fst (fst T)) (fst (snd (fst T)))
                       (snd (snd (fst T))) (snd (snd T))))"
    by (intro main_output_page) simp_all
  show "case temporalResampling E c B thread_id (RAB_GetGBufferSurface B thread_id)
                  (candidate E c B thread_id (RAB_GetGBufferSurface B thread_id))
                  (RAB_StoreGIReservoir
                     (candidate E c B thread_id (RAB_GetGBufferSurface B thread_id))
                     thread_id (ReSTIRGI_GetInitSamplePage E) s0) of
            ((resultReservoir, similar, initial), reprojection, s1) \<Rightarrow>
              reSTIRGIBiasCorrectionMode c = RTXDI_BIAS_CORRECTION_PAIRWISE_RAY_TRACED E
                  \<and> similar \<and> \<not> initial
              \<longrightarrow> reservoirs (main E c B thread_id s0)
                    (ReSTIRGI_GetTemporalOutputPage E, thread_id) =
                  Some (resultReservoir\<lparr>flagsAndVirtualFraction :=
                    setFlag E
                      (if RAB_TraceGISampleVisibility E (RAB_GetGBufferSurface B thread_id)
                            (RAB_GetGBufferSurface B thread_id) resultReservoir
                            (numActiveRayPortals c)
                       then 0 else RESTIR_GI_FLAG_OCCLUDED_SAMPLE E)
                      (clearFlag E (RESTIR_GI_FLAG_OCCLUDED_SAMPLE E)
                         (flagsAndVirtualFraction resultReservoir))\<rparr>)"
    unfolding out using h
    by (auto simp: Let_def visibilityRevalidation_def split: prod.splits)
next
  assume h: "fst thread_id < fst (resolution (camera c))
        \<and> snd thread_id < snd (resolution (camera c))
        \<and> RAB_IsSurfaceValid E (RAB_GetGBufferSurface B thread_id)"
  then have traced: "rays (main E c B thread_id s0) =
     (let surface = RAB_GetGBufferSurface B thread_id;
          initialSample = candidate E c B thread_id surface;
          T = temporalResampling E c B thread_id surface initialSample
                (RAB_StoreGIReservoir initialSample thread_id (ReSTIRGI_GetInitSamplePage E) s0)
      in rays (snd (visibilityRevalidation E c surface (fst (fst T)) (fst (snd (fst T)))
                      (snd (snd (fst T))) (snd (snd T)))))"
    by (intro main_rays) simp_all
  show "case temporalResampling E c B thread_id (RAB_GetGBufferSurface B thread_id)
                  (candidate E c B thread_id (RAB_GetGBufferSurface B thread_id))
                  (RAB_StoreGIReservoir
                     (candidate E c B thread_id (RAB_GetGBufferSurface B thread_id))
                     thread_id (ReSTIRGI_GetInitSamplePage E) s0) of
            ((resultReservoir, similar, initial), reprojection, s1) \<Rightarrow>
              rays (main E c B thread_id s0) =
                (if reSTIRGIBiasCorrectionMode c = RTXDI_BIAS_CORRECTION_PAIRWISE_RAY_TRACED E
                    \<and> similar \<and> \<not> initial
                 then rays s1 @ [GISampleVisibility resultReservoir]
                 else rays s1)"
    unfolding traced
    by (simp add: Let_def visibilityRevalidation_def split: prod.splits)
qed

theorem visibility_revalidation_runs_iff_witness:
  "visibilityRevalidation env0 cb0 surface0
     \<lparr>position = (0.2, 0, - 3), normal = (0, 0, - 1), radiance = (Finite 30, Finite 30, Finite 30),
      avgWeight = 1, M = 9, flagsAndVirtualFraction = 0\<rparr> True False state0 =
     (\<lparr>position = (0.2, 0, - 3), normal = (0, 0, - 1), radiance = (Finite 30, Finite 30, Finite 30),
      avgWeight = 1, M = 9, flagsAndVirtualFraction = 1\<rparr>,
      state0\<lparr>rays :=
        [GISampleVisibility
           \<lparr>position = (0.2, 0, - 3), normal = (0, 0, - 1), radiance = (Finite 30, Finite 30, Finite 30),
      avgWeight = 1, M = 9, flagsAndVirtualFraction = 0\<rparr>]\<rparr>)
   \<and> visibilityRevalidation env0 cb0 surface0
     \<lparr>position = (0.2, 0, - 3), normal = (0, 0, - 1), radiance = (Finite 30, Finite 30, Finite 30),
      avgWeight = 1, M = 9, flagsAndVirtualFraction = 0\<rparr> True True state0 =
     (\<lparr>position = (0.2, 0, - 3), normal = (0, 0, - 1), radiance = (Finite 30, Finite 30, Finite 30),
      avgWeight = 1, M = 9, flagsAndVirtualFraction = 0\<rparr>, state0)
   \<and> reservoirs (main env0 (cb0\<lparr>reSTIRGIBiasCorrectionMode := 1\<rparr>) buffers0 (50, 50) state0)
       (1, (50, 50)) =
     Some \<lparr>position = (0.2, 0, - 3), normal = (0, 0, - 1), radiance = (Finite 30, Finite 30, Finite 30),
      avgWeight = 1, M = 9, flagsAndVirtualFraction = 0\<rparr>
   \<and> rays (main env0 (cb0\<lparr>reSTIRGIBiasCorrectionMode := 1\<rparr>) buffers0 (50, 50) state0) =
     [VisibilityRay (0.2, 0, - 100005)]
   \<and> reservoirs (main env0 cb0 buffers0 (50, 50) state0) (1, (50, 50)) =
     Some \<lparr>position = (0.2, 0, - 3), normal = (0, 0, - 1), radiance = (Finite 30, Finite 30, Finite 30),
      avgWeight = 1, M = 9, flagsAndVirtualFraction = 1\<rparr>
   \<and> rays (main env0 cb0 buffers0 (50, 50) state0) =
     [VisibilityRay (0.2, 0, - 100005),
      GISampleVisibility
        \<lparr>position = (0.2, 0, - 3), normal = (0, 0, - 1), radiance = (Finite 30, Finite 30, Finite 30),
      avgWeight = 1, M = 9, flagsAndVirtualFraction = 0\<rparr>]"
proof -
  define r :: ReSTIRGI_Reservoir
    where "r = \<lparr>position = (0.2, 0, - 3), normal = (0, 0, - 1), radiance = (Finite 30, Finite 30, Finite 30),
      avgWeight = 1, M = 9, flagsAndVirtualFraction = 0\<rparr>"
  define c where "c = cb0\<lparr>reSTIRGIBiasCorrectionMode := 1\<rparr>"
  have mode: "reSTIRGIBiasCorrectionMode cb0 = RTXDI_BIAS_CORRECTION_PAIRWISE_RAY_TRACED env0"
    by (simp add: cb0_def env0_def)
  have ran: "visibilityRevalidation env0 cb0 surface0 r True False state0 =
      (r\<lparr>flagsAndVirtualFraction :=
            setFlag env0
              (if RAB_TraceGISampleVisibility env0 surface0 surface0 r (numActiveRayPortals cb0)
               then 0 else RESTIR_GI_FLAG_OCCLUDED_SAMPLE env0)
              (clearFlag env0 (RESTIR_GI_FLAG_OCCLUDED_SAMPLE env0) (flagsAndVirtualFraction r))\<rparr>,
       state0\<lparr>rays := rays state0 @ [GISampleVisibility r]\<rparr>)"
    by (rule mp [OF conjunct1 [OF conjunct2 [OF visibility_revalidation_runs_iff]]])
       (simp add: mode)
  have flag: "setFlag env0
              (if RAB_TraceGISampleVisibility env0 surface0 surface0 r (numActiveRayPortals cb0)
               then 0 else RESTIR_GI_FLAG_OCCLUDED_SAMPLE env0)
              (clearFlag env0 (RESTIR_GI_FLAG_OCCLUDED_SAMPLE env0) (flagsAndVirtualFraction r)) = 1"
    by (simp add: env0_def r_def)
  have skipped: "visibilityRevalidation env0 cb0 surface0 r True True state0 = (r, state0)"
    by (rule mp [OF conjunct1 [OF conjunct2 [OF conjunct2 [OF visibility_revalidation_runs_iff]]]])
       simp
  have resampler: "ReSTIRGI_TemporalResampling env0 pages x px sf g tp =
      (x\<lparr>M := min (M x + 8) (tp_temporalHistoryLength tp)\<rparr>, True, False)"
    for pages x px sf g tp
    by (simp add: env0_def)
  have surface: "RAB_GetGBufferSurface buffers0 (50, 50) = surface0"
    by (simp add: buffers0_def)
  have cand: "candidate env0 c buffers0 (50, 50) surface0 = r\<lparr>M := 1\<rparr>"
    by (simp add: candidate_def loadRadiance_def transformAcrossPortal_def virtualSample_def
        env0_def cb0_def c_def buffers0_def surface0_def spec_fireflyFiltering_def normalize3_def
        Let_def r_def)
  have cand0: "candidate env0 cb0 buffers0 (50, 50) surface0 = r\<lparr>M := 1\<rparr>"
    by (simp add: candidate_frame0 r_def)
  have T: "fst (temporalResampling env0 c buffers0 (50, 50) surface0 (r\<lparr>M := 1\<rparr>) s) =
      (r, True, False)" for s
    by (simp add: temporalResampling_def Let_def resampler tparams_of_def r_def c_def cb0_def
          split: prod.splits)
  have T0: "fst (temporalResampling env0 cb0 buffers0 (50, 50) surface0 (r\<lparr>M := 1\<rparr>) s) =
      (r, True, False)" for s
    by (simp add: temporalResampling_def Let_def resampler tparams_of_def r_def cb0_def
          split: prod.splits)
  have moved: "motionPrevPixelCenter env0 (camera k) surface0
        (PrimaryVirtualMotionVector buffers0 (50, 50)) = (60, 50)"
    if "camera k = camera cb0" for k
    unfolding that
    by (simp add: motionPrevPixelCenter_def screenPosition_def env0_def cb0_def surface0_def
          buffers0_def identity4_def Let_def)
  have weight: "reflectionWeight_of env0 k surface0 = 0.25"
    if "enableReSTIRGIReflectionReprojection k = 1" for k
    using that by (simp add: reflectionWeight_of_def env0_def surface0_def Let_def)
  have dst: "reflectionDstPosition surface0 = (0.2, 0, - 100005)"
    by (simp add: reflectionDstPosition_def reflect_def surface0_def Let_def)
  have traced: "rays (snd (snd (temporalResampling env0 k buffers0 (50, 50) surface0 x s))) =
      rays s @ [VisibilityRay (0.2, 0, - 100005)]"
    if k: "camera k = camera cb0" "enableReSTIRGIReflectionReprojection k = 1" for k x s
    unfolding temporalResampling_def reflectionReprojection_def Let_def moved [OF k(1)]
      weight [OF k(2)] dst
    by (simp add: k(2) split: prod.splits)
  have same_camera: "camera c = camera cb0" "enableReSTIRGIReflectionReprojection c = 1"
    "enableReSTIRGIReflectionReprojection cb0 = 1"
    by (simp_all add: c_def cb0_def)
  have pre: "fst (50::nat, 50::nat) < fst (resolution (camera c))
        \<and> snd (50::nat, 50::nat) < snd (resolution (camera c))
        \<and> RAB_IsSurfaceValid env0 (RAB_GetGBufferSurface buffers0 (50, 50))
        \<and> enableReSTIRGITemporalReuse c"
    by (simp add: c_def cb0_def env0_def)
  have pre0: "fst (50::nat, 50::nat) < fst (resolution (camera cb0))
        \<and> snd (50::nat, 50::nat) < snd (resolution (camera cb0))
        \<and> RAB_IsSurfaceValid env0 (RAB_GetGBufferSurface buffers0 (50, 50))
        \<and> enableReSTIRGITemporalReuse cb0"
    by (simp add: cb0_def env0_def)
  have pre_valid: "fst (50::nat, 50::nat) < fst (resolution (camera c))
        \<and> snd (50::nat, 50::nat) < snd (resolution (camera c))
        \<and> RAB_IsSurfaceValid env0 (RAB_GetGBufferSurface buffers0 (50, 50))"
    using pre by simp
  have pre0_valid: "fst (50::nat, 50::nat) < fst (resolution (camera cb0))
        \<and> snd (50::nat, 50::nat) < snd (resolution (camera cb0))
        \<and> RAB_IsSurfaceValid env0 (RAB_GetGBufferSurface buffers0 (50, 50))"
    using pre0 by simp
  have other_mode: "reSTIRGIBiasCorrectionMode c \<noteq> RTXDI_BIAS_CORRECTION_PAIRWISE_RAY_TRACED env0"
    by (simp add: c_def cb0_def env0_def)
  have page: "ReSTIRGI_GetTemporalOutputPage env0 = 1" by (simp add: env0_def)
  define s1 where "s1 = RAB_StoreGIReservoir (r\<lparr>M := 1\<rparr>) (50, 50)
        (ReSTIRGI_GetInitSamplePage env0) state0"
  have rays_s1: "rays s1 = []"
    by (simp add: s1_def rays_RAB_StoreGIReservoir state0_def)
  obtain rp sa where Tc: "temporalResampling env0 c buffers0 (50, 50) surface0 (r\<lparr>M := 1\<rparr>) s1
      = ((r, True, False), rp, sa)"
    using T [of s1] by (cases "temporalResampling env0 c buffers0 (50, 50) surface0
        (r\<lparr>M := 1\<rparr>) s1") auto
  have rays_sa: "rays sa = [VisibilityRay (0.2, 0, - 100005)]"
    using traced [OF same_camera(1) same_camera(2), of "r\<lparr>M := 1\<rparr>" s1, unfolded Tc]
    by (simp add: rays_s1)
  obtain rp0 sb where Tc0: "temporalResampling env0 cb0 buffers0 (50, 50) surface0 (r\<lparr>M := 1\<rparr>) s1
      = ((r, True, False), rp0, sb)"
    using T0 [of s1] by (cases "temporalResampling env0 cb0 buffers0 (50, 50) surface0
        (r\<lparr>M := 1\<rparr>) s1") auto
  have rays_sb: "rays sb = [VisibilityRay (0.2, 0, - 100005)]"
    using traced [OF refl same_camera(3), of "r\<lparr>M := 1\<rparr>" s1, unfolded Tc0]
    by (simp add: rays_s1)
  note skip_main = mp [OF conjunct1 [OF conjunct2 [OF conjunct2 [OF conjunct2
      [OF visibility_revalidation_runs_iff
        [where E = env0 and c = c and B = buffers0 and thread_id = "(50, 50)"
           and ?s0.0 = state0]]]]] pre]
  have written: "reservoirs (main env0 c buffers0 (50, 50) state0) (1, (50, 50)) = Some r"
    using skip_main other_mode
    unfolding surface cand page s1_def [symmetric] Tc
    by simp
  note rays_main = mp [OF conjunct2 [OF conjunct2 [OF conjunct2 [OF conjunct2 [OF conjunct2
      [OF visibility_revalidation_runs_iff
        [where E = env0 and c = c and B = buffers0 and thread_id = "(50, 50)"
           and ?s0.0 = state0]]]]]] pre_valid]
  have untraced: "rays (main env0 c buffers0 (50, 50) state0) =
      [VisibilityRay (0.2, 0, - 100005)]"
    using rays_main other_mode
    unfolding surface cand page s1_def [symmetric] Tc
    by (simp add: rays_sa)
  note run_main = mp [OF conjunct1 [OF conjunct2 [OF conjunct2 [OF conjunct2 [OF conjunct2
      [OF visibility_revalidation_runs_iff
        [where E = env0 and c = cb0 and B = buffers0 and thread_id = "(50, 50)"
           and ?s0.0 = state0]]]]]] pre0]
  have flagged: "reservoirs (main env0 cb0 buffers0 (50, 50) state0) (1, (50, 50)) =
      Some (r\<lparr>flagsAndVirtualFraction := 1\<rparr>)"
    using run_main mode
    unfolding surface cand0 page s1_def [symmetric] Tc0
    by (simp add: flag)
  note rays_main0 = mp [OF conjunct2 [OF conjunct2 [OF conjunct2 [OF conjunct2 [OF conjunct2
      [OF visibility_revalidation_runs_iff
        [where E = env0 and c = cb0 and B = buffers0 and thread_id = "(50, 50)"
           and ?s0.0 = state0]]]]]] pre0_valid]
  have traced_main: "rays (main env0 cb0 buffers0 (50, 50) state0) =
      [VisibilityRay (0.2, 0, - 100005), GISampleVisibility r]"
    using rays_main0 mode
    unfolding surface cand0 page s1_def [symmetric] Tc0
    by (simp add: rays_sb)
  from ran flag skipped written untraced flagged traced_main show ?thesis
    by (simp add: r_def c_def state0_def)
qed

subsection \<open>Similarity thresholds\<close>

text \<open>
  Claim C9. Both components of the depth threshold are \<open>0.01 / max(d, 0.01)\<close> for
  \<open>d\<close> the absolute dot product of view direction and triangle normal; the threshold
  is monotone in \<open>d\<close>: it does not increase when \<open>d\<close> increases, from \<open>1\<close> for
  \<open>d \<le> 0.01\<close> (the view direction lies in the surface) to \<open>0.01\<close> for \<open>d = 1\<close>. The
  normal threshold is strictly decreasing in the isotropic roughness, \<open>0.995\<close> at
  roughness \<open>0\<close> and \<open>0.5\<close> at roughness \<open>1\<close>.
\<close>

theorem thresholds_monotone:
  "(\<bar>dot3 (viewDirection (minimalRayInteraction s1))
          (triangleNormal (minimalSurfaceInteraction s1))\<bar>
      \<le> \<bar>dot3 (viewDirection (minimalRayInteraction s2))
              (triangleNormal (minimalSurfaceInteraction s2))\<bar>
     \<longrightarrow> fst (depthThreshold_of s2) \<le> fst (depthThreshold_of s1)
         \<and> snd (depthThreshold_of s2) \<le> snd (depthThreshold_of s1))
   \<and> (\<bar>dot3 (viewDirection (minimalRayInteraction s1))
            (triangleNormal (minimalSurfaceInteraction s1))\<bar> \<le> 0.01
     \<longrightarrow> depthThreshold_of s1 = (1, 1))
   \<and> (\<bar>dot3 (viewDirection (minimalRayInteraction s1))
            (triangleNormal (minimalSurfaceInteraction s1))\<bar> = 1
     \<longrightarrow> depthThreshold_of s1 = (0.01, 0.01))
   \<and> (isotropicRoughness (opaqueSurfaceMaterialInteraction s1)
        < isotropicRoughness (opaqueSurfaceMaterialInteraction s2)
     \<longrightarrow> normalThreshold_of s2 < normalThreshold_of s1)
   \<and> (isotropicRoughness (opaqueSurfaceMaterialInteraction s1) = 0
     \<longrightarrow> normalThreshold_of s1 = 0.995)
   \<and> (isotropicRoughness (opaqueSurfaceMaterialInteraction s1) = 1
     \<longrightarrow> normalThreshold_of s1 = 0.5)"
proof (intro conjI impI)
  assume le: "\<bar>dot3 (viewDirection (minimalRayInteraction s1))
          (triangleNormal (minimalSurfaceInteraction s1))\<bar>
      \<le> \<bar>dot3 (viewDirection (minimalRayInteraction s2))
              (triangleNormal (minimalSurfaceInteraction s2))\<bar>"
  define a where "a = max \<bar>dot3 (viewDirection (minimalRayInteraction s1))
      (triangleNormal (minimalSurfaceInteraction s1))\<bar> 0.01"
  define b where "b = max \<bar>dot3 (viewDirection (minimalRayInteraction s2))
      (triangleNormal (minimalSurfaceInteraction s2))\<bar> 0.01"
  have pos: "0 < a" "a \<le> b" using le by (auto simp: a_def b_def)
  then have "0.01 / b \<le> 0.01 / a"
    by (intro divide_left_mono) auto
  then show "fst (depthThreshold_of s2) \<le> fst (depthThreshold_of s1)"
    and "snd (depthThreshold_of s2) \<le> snd (depthThreshold_of s1)"
    by (simp_all add: depthThreshold_of_def Let_def a_def b_def)
next
  assume "\<bar>dot3 (viewDirection (minimalRayInteraction s1))
            (triangleNormal (minimalSurfaceInteraction s1))\<bar> \<le> 0.01"
  then show "depthThreshold_of s1 = (1, 1)"
    by (simp add: depthThreshold_of_def Let_def max_def)
next
  assume "\<bar>dot3 (viewDirection (minimalRayInteraction s1))
            (triangleNormal (minimalSurfaceInteraction s1))\<bar> = 1"
  then show "depthThreshold_of s1 = (0.01, 0.01)"
    by (simp add: depthThreshold_of_def Let_def)
next
  assume "isotropicRoughness (opaqueSurfaceMaterialInteraction s1)
        < isotropicRoughness (opaqueSurfaceMaterialInteraction s2)"
  then show "normalThreshold_of s2 < normalThreshold_of s1"
    by (simp add: normalThreshold_of_def)
next
  assume "isotropicRoughness (opaqueSurfaceMaterialInteraction s1) = 0"
  then show "normalThreshold_of s1 = 0.995"
    by (simp add: normalThreshold_of_def)
next
  assume "isotropicRoughness (opaqueSurfaceMaterialInteraction s1) = 1"
  then show "normalThreshold_of s1 = 0.5"
    by (simp add: normalThreshold_of_def)
qed

theorem thresholds_monotone_witness:
  "depthThreshold_of surface0 = (0.01, 0.01)
   \<and> depthThreshold_of (surface0\<lparr>minimalRayInteraction := \<lparr>viewDirection = (1, 0, 0)\<rparr>\<rparr>) = (1, 1)
   \<and> fst (depthThreshold_of surface0)
       \<le> fst (depthThreshold_of (surface0\<lparr>minimalRayInteraction := \<lparr>viewDirection = (1, 0, 0)\<rparr>\<rparr>))
   \<and> normalThreshold_of
        (surface0\<lparr>opaqueSurfaceMaterialInteraction :=
           \<lparr>isotropicRoughness = 0, shadingNormal = (0, 0, - 1),
            albedo = (0.5, 0.5, 0.5), baseReflectivity = (0.5, 0.5, 0.5)\<rparr>\<rparr>) = 0.995
   \<and> normalThreshold_of
        (surface0\<lparr>opaqueSurfaceMaterialInteraction :=
           \<lparr>isotropicRoughness = 1, shadingNormal = (0, 0, - 1),
            albedo = (0.5, 0.5, 0.5), baseReflectivity = (0.5, 0.5, 0.5)\<rparr>\<rparr>) = 0.5
   \<and> normalThreshold_of
        (surface0\<lparr>opaqueSurfaceMaterialInteraction :=
           \<lparr>isotropicRoughness = 1, shadingNormal = (0, 0, - 1),
            albedo = (0.5, 0.5, 0.5), baseReflectivity = (0.5, 0.5, 0.5)\<rparr>\<rparr>)
       < normalThreshold_of surface0"
proof -
  define grazing where
    "grazing = surface0\<lparr>minimalRayInteraction := \<lparr>viewDirection = (1, 0, 0)\<rparr>\<rparr>"
  define mirror where
    "mirror = surface0\<lparr>opaqueSurfaceMaterialInteraction :=
           \<lparr>isotropicRoughness = 0, shadingNormal = (0, 0, - 1),
            albedo = (0.5, 0.5, 0.5), baseReflectivity = (0.5, 0.5, 0.5)\<rparr>\<rparr>"
  define rough where
    "rough = surface0\<lparr>opaqueSurfaceMaterialInteraction :=
           \<lparr>isotropicRoughness = 1, shadingNormal = (0, 0, - 1),
            albedo = (0.5, 0.5, 0.5), baseReflectivity = (0.5, 0.5, 0.5)\<rparr>\<rparr>"
  have d0: "\<bar>dot3 (viewDirection (minimalRayInteraction surface0))
                  (triangleNormal (minimalSurfaceInteraction surface0))\<bar> = 1"
    by (simp add: surface0_def)
  have dg: "\<bar>dot3 (viewDirection (minimalRayInteraction grazing))
                  (triangleNormal (minimalSurfaceInteraction grazing))\<bar> = 0"
    by (simp add: grazing_def surface0_def)
  have r0: "isotropicRoughness (opaqueSurfaceMaterialInteraction surface0) = 0.5"
    by (simp add: surface0_def)
  have rm: "isotropicRoughness (opaqueSurfaceMaterialInteraction mirror) = 0"
    by (simp add: mirror_def)
  have rr: "isotropicRoughness (opaqueSurfaceMaterialInteraction rough) = 1"
    by (simp add: rough_def)
  have head_on: "depthThreshold_of surface0 = (0.01, 0.01)"
    by (rule mp [OF conjunct1 [OF conjunct2 [OF conjunct2 [OF thresholds_monotone]]]])
       (rule d0)
  have flat: "depthThreshold_of grazing = (1, 1)"
    by (rule mp [OF conjunct1 [OF conjunct2 [OF thresholds_monotone]]])
       (simp add: dg)
  have mono: "fst (depthThreshold_of surface0) \<le> fst (depthThreshold_of grazing)
      \<and> snd (depthThreshold_of surface0) \<le> snd (depthThreshold_of grazing)"
    by (rule mp [OF conjunct1 [OF thresholds_monotone]]) (simp add: d0 dg)
  have smooth: "normalThreshold_of mirror = 0.995"
    by (rule mp [OF conjunct1 [OF conjunct2 [OF conjunct2 [OF conjunct2 [OF conjunct2
          [OF thresholds_monotone]]]]]]) (rule rm)
  have coarse: "normalThreshold_of rough = 0.5"
    by (rule mp [OF conjunct2 [OF conjunct2 [OF conjunct2 [OF conjunct2 [OF conjunct2
          [OF thresholds_monotone]]]]]]) (rule rr)
  have less: "normalThreshold_of rough < normalThreshold_of surface0"
    by (rule mp [OF conjunct1 [OF conjunct2 [OF conjunct2 [OF conjunct2
          [OF thresholds_monotone]]]]]) (simp add: r0 rr)
  from head_on flat mono smooth coarse less show ?thesis
    by (simp only: grazing_def mirror_def rough_def simp_thms)
qed

end
